theory Spec2Isabelle
  imports Main "HOL-Library.Word" "HOL-Library.Sublist"
begin

section \<open>JavaScript strings\<close>

text \<open>
  A JavaScript string is a sequence of UTF-16 code units; \<open>length\<close>, \<open>slice\<close>, indexing and
  \<open>trim\<close> all work on code units. A string is therefore a list of 16-bit words, and a
  literal of the source is written \<open>js ''...''\<close> (its ASCII characters), with any other code
  unit given by its number.
\<close>

type_synonym jschar = "16 word"
type_synonym jsstring = "jschar list"

definition js :: "string \<Rightarrow> jsstring" where
  "js s = map of_char s"

definition LF :: jschar where "LF = 0x0A"
definition CR :: jschar where "CR = 0x0D"
definition TAB :: jschar where "TAB = 0x09"
definition SPC :: jschar where "SPC = 0x20"
definition DQUOTE :: jschar where "DQUOTE = 0x22"
definition SQUOTE :: jschar where "SQUOTE = 0x27"

text \<open>
  The code units that \<open>String.prototype.trim\<close> removes: ECMAScript's WhiteSpace (TAB, VT,
  FF, SP, NBSP, ZWNBSP and the space separators) and LineTerminator (LF, CR, LS, PS).
\<close>

definition isWhiteSpace :: "jschar \<Rightarrow> bool" where
  "isWhiteSpace c \<longleftrightarrow>
     c = 0x09 \<or> c = 0x0A \<or> c = 0x0B \<or> c = 0x0C \<or> c = 0x0D \<or> c = 0x20 \<or> c = 0xA0 \<or>
     c = 0x1680 \<or> (0x2000 \<le> c \<and> c \<le> 0x200A) \<or> c = 0x2028 \<or> c = 0x2029 \<or>
     c = 0x202F \<or> c = 0x205F \<or> c = 0x3000 \<or> c = 0xFEFF"

definition trimStart :: "jsstring \<Rightarrow> jsstring" where
  "trimStart s = dropWhile isWhiteSpace s"

definition trimEnd :: "jsstring \<Rightarrow> jsstring" where
  "trimEnd s = rev (dropWhile isWhiteSpace (rev s))"

definition trim :: "jsstring \<Rightarrow> jsstring" where
  "trim s = trimEnd (trimStart s)"

text \<open>\<open>xs.join(sep)\<close>\<close>

fun join :: "jsstring \<Rightarrow> jsstring list \<Rightarrow> jsstring" where
  "join sep [] = []"
| "join sep [x] = x"
| "join sep (x # y # ys) = x @ sep @ join sep (y # ys)"

text \<open>
  \<open>s.split(/\r?\n/)\<close>: the string is cut at every LF, and a CR right before that LF belongs
  to the separator. The result always has at least one element.
\<close>

fun split_lines :: "jsstring \<Rightarrow> jsstring list" where
  "split_lines [] = [Nil]"
| "split_lines [c] = (if c = LF then [Nil, Nil] else [c # Nil])"
| "split_lines (c # d # ds) =
     (if c = LF then [] # split_lines (d # ds)
      else if c = CR \<and> d = LF then [] # split_lines ds
      else (case split_lines (d # ds) of
              [] \<Rightarrow> [c # Nil]
            | l # ls \<Rightarrow> (c # l) # ls))"

text \<open>Decimal rendering of a number inside a template literal.\<close>

function show_nat :: "nat \<Rightarrow> jsstring" where
  "show_nat n = (if n < 10 then [of_nat (48 + n)] else show_nat (n div 10) @ [of_nat (48 + n mod 10)])"
  by pat_completeness auto
termination
  by (relation "measure (\<lambda>n. n)") auto

definition show_int :: "int \<Rightarrow> jsstring" where
  "show_int i = (if i < 0 then js ''-'' @ show_nat (nat (- i)) else show_nat (nat i))"

datatype error = Error jsstring

section \<open>Commit message generation\<close>

definition MAX_COMMIT_DIFF_CHARS :: nat where
  "MAX_COMMIT_DIFF_CHARS = 12000"

definition truncation_marker :: jsstring where
  "truncation_marker =
     [LF, LF] @ js ''[Diff truncated to the first '' @ show_nat MAX_COMMIT_DIFF_CHARS @ js '' characters]''"

text \<open>\<open>truncateDiffForCommit\<close> returns the pair \<open>(truncatedDiff, truncated)\<close>.\<close>

definition truncateDiffForCommit :: "jsstring \<Rightarrow> jsstring \<times> bool" where
  "truncateDiffForCommit diff =
     (if length diff \<le> MAX_COMMIT_DIFF_CHARS then (diff, False)
      else (take MAX_COMMIT_DIFF_CHARS diff @ truncation_marker, True))"

definition systemPrompt :: jsstring where
  "systemPrompt =
     js ''You are an expert software engineer who writes clear, concise git commit messages. Use imperative mood, keep the subject line under 72 characters, and include an optional body with bullet points if helpful. Never wrap the message in quotes. Never include secrets, credentials, or file contents from .env files, environment variables, keys, or other sensitive data''
     @ [0x2014] @ js ''even if they appear in the diff.''"

definition prompt_header :: jsstring where
  "prompt_header = js ''Write a git commit message for the staged changes.'' @ [LF, LF] @ js ''Git diff:'' @ [LF]"

definition truncation_notice :: jsstring where
  "truncation_notice = [LF, LF] @ js ''[Diff truncated to fit within prompt]''"

text \<open>The user prompt that \<open>generateCommitMessage\<close> builds before it calls the model.\<close>

definition userPrompt :: "jsstring \<Rightarrow> jsstring \<Rightarrow> bool \<Rightarrow> jsstring" where
  "userPrompt diff status truncated =
     (let p0 = prompt_header @ diff;
          p1 = (if truncated then p0 @ truncation_notice else p0);
          trimmedStatus = trim status
      in if trimmedStatus \<noteq> [] then p1 @ [LF, LF] @ js ''Git status --short:'' @ [LF] @ trimmedStatus
         else p1)"

text \<open>
  The completion API is the environment: \<open>streamText apiKey system prompt\<close> is the text the
  model returns, or the error the call raises.
\<close>

type_synonym completion = "jsstring \<Rightarrow> jsstring \<Rightarrow> jsstring \<Rightarrow> error + jsstring"

definition generateCommitMessage ::
  "completion \<Rightarrow> jsstring \<Rightarrow> jsstring \<Rightarrow> jsstring \<Rightarrow> bool \<Rightarrow> error + jsstring" where
  "generateCommitMessage streamText apiKey diff status truncated =
     (case streamText apiKey systemPrompt (userPrompt diff status truncated) of
        Inl e \<Rightarrow> Inl e
      | Inr text \<Rightarrow>
          (let message = trim text
           in if message = [] then Inl (Error (js ''Model returned an empty commit message''))
              else Inr message))"

section \<open>Configuration file\<close>

text \<open>
  The types of \<open>config.ts\<close>. An optional field is an \<open>option\<close>; a \<open>Record\<close> is the list
  of its entries in the order \<open>Object.entries\<close> enumerates them.
\<close>

record OneFAppConfig =
  app_name :: "jsstring option"
  app_description :: "jsstring option"
  app_version :: "jsstring option"

record OneFSecretConfig =
  secret_label :: "jsstring option"
  secret_required :: "bool option"
  secret_description :: "jsstring option"
  secret_default :: "jsstring option"

record OneFTaskConfig =
  desc :: "jsstring option"
  silent :: "bool option"
  cmds :: "jsstring list option"

record OneFConfig =
  app :: "OneFAppConfig option"
  secrets :: "(jsstring \<times> OneFSecretConfig) list option"
  tasks :: "(jsstring \<times> OneFTaskConfig) list option"

definition ONE_F_CONFIG_FILENAME :: jsstring where
  "ONE_F_CONFIG_FILENAME = js ''1f.toml''"

section \<open>Command registry\<close>

text \<open>
  The handlers that \<open>main\<close> and \<open>registerConfigTasks\<close> pass to \<open>registerCommand\<close>, and the
  closure \<open>() => executeCommandWithTelemetry(name, handler)\<close> that the registry stores.
\<close>

datatype CommandHandler =
    RunCommitPushWorkflow jsstring
  | RunDBOpen
  | RunDBClear
  | RunUpdate
  | RunSetup
  | RunTasksList
  | RunTestWatch
  | RunChatTui
  | LogReportedVersion
  | RunConfiguredTask jsstring OneFTaskConfig

datatype RegisteredHandler = WithTelemetry jsstring CommandHandler

record CommandCatalogEntry =
  entry_name :: jsstring
  entry_description :: jsstring

record cli =
  commandRegistry :: "jsstring \<rightharpoonup> RegisteredHandler"
  commandCatalog :: "CommandCatalogEntry list"

definition initial_cli :: cli where
  "initial_cli =
     \<lparr> commandRegistry = Map.empty,
       commandCatalog = [\<lparr> entry_name = js ''help'', entry_description = js ''Help about any command'' \<rparr>] \<rparr>"

definition registerCommand :: "jsstring \<Rightarrow> jsstring \<Rightarrow> CommandHandler \<Rightarrow> cli \<Rightarrow> cli" where
  "registerCommand name description handler st =
     \<lparr> commandRegistry = (commandRegistry st)(name \<mapsto> WithTelemetry name handler),
       commandCatalog = commandCatalog st @ [\<lparr> entry_name = name, entry_description = description \<rparr>] \<rparr>"

text \<open>The ten \<open>registerCommand\<close> calls of \<open>main\<close>, in order.\<close>

definition builtins :: "(jsstring \<times> jsstring \<times> CommandHandler) list" where
  "builtins =
     [(js ''commit'', js ''Generate a commit message with GPT-5 nano, create the commit, and push it'',
         RunCommitPushWorkflow (js ''commit'')),
      (js ''commitPush'', js ''Generate a commit message with GPT-5 nano, create the commit, and push it'',
         RunCommitPushWorkflow (js ''commitPush'')),
      (js ''dbOpen'', js ''Open the project SQLite database in TablePlus'', RunDBOpen),
      (js ''dbClear'', js ''Remove all data from the project SQLite database'', RunDBClear),
      (js ''update'', js ''Update dependencies (bun) and pull latest git changes'', RunUpdate),
      (js ''setup'', js ''Validate required secrets and run the setup task from 1f.toml'', RunSetup),
      (js ''tasks'', js ''List tasks defined in 1f.toml'', RunTasksList),
      (js ''test'', js ''Fuzzy select a test file under tests/ then run bun --watch'', RunTestWatch),
      (js ''chat'', js ''Open a ChatGPT-like TUI for quick requests'', RunChatTui),
      (js ''version'', js ''Print the current fast release'', LogReportedVersion)]"

fun registerAll :: "(jsstring \<times> jsstring \<times> CommandHandler) list \<Rightarrow> cli \<Rightarrow> cli" where
  "registerAll [] st = st"
| "registerAll ((name, description, handler) # rest) st =
     registerAll rest (registerCommand name description handler st)"

definition registerBuiltins :: "cli \<Rightarrow> cli" where
  "registerBuiltins st = registerAll builtins st"

definition default_task_description :: "jsstring \<Rightarrow> jsstring" where
  "default_task_description taskName =
     js ''Run '' @ taskName @ js '' task from '' @ ONE_F_CONFIG_FILENAME"

text \<open>The body of the \<open>for\<close> loop of \<open>registerConfigTasks\<close>, for one entry of the task table.\<close>

definition registerConfigTask :: "jsstring \<times> OneFTaskConfig \<Rightarrow> cli \<Rightarrow> cli" where
  "registerConfigTask entry st =
     (case entry of (taskName, taskConfig) \<Rightarrow>
        if commandRegistry st taskName \<noteq> None then st
        else registerCommand taskName
               (case desc taskConfig of Some d \<Rightarrow> d | None \<Rightarrow> default_task_description taskName)
               (RunConfiguredTask taskName taskConfig) st)"

fun registerTaskEntries :: "(jsstring \<times> OneFTaskConfig) list \<Rightarrow> cli \<Rightarrow> cli" where
  "registerTaskEntries [] st = st"
| "registerTaskEntries (entry # rest) st = registerTaskEntries rest (registerConfigTask entry st)"

definition registerConfigTasks :: "OneFConfig option \<Rightarrow> cli \<Rightarrow> cli" where
  "registerConfigTasks config st =
     (case config of
        None \<Rightarrow> st
      | Some c \<Rightarrow> (case tasks c of None \<Rightarrow> st | Some ts \<Rightarrow> registerTaskEntries ts st))"

text \<open>The registrations of \<open>main\<close>: the built-ins, then the tasks of the configuration.\<close>

definition startup :: "OneFConfig option \<Rightarrow> cli" where
  "startup config = registerConfigTasks config (registerBuiltins initial_cli)"

text \<open>
  What the registration loop attempts, in order: every built-in, then every entry of the task
  table, each with the closure the registry would store for it.
\<close>

definition config_tasks :: "OneFConfig option \<Rightarrow> (jsstring \<times> OneFTaskConfig) list" where
  "config_tasks config =
     (case config of None \<Rightarrow> [] | Some c \<Rightarrow> (case tasks c of None \<Rightarrow> [] | Some ts \<Rightarrow> ts))"

definition registration_attempts :: "OneFConfig option \<Rightarrow> (jsstring \<times> RegisteredHandler) list" where
  "registration_attempts config =
     map (\<lambda>(name, description, handler). (name, WithTelemetry name handler)) builtins @
     map (\<lambda>(taskName, taskConfig). (taskName, WithTelemetry taskName (RunConfiguredTask taskName taskConfig)))
       (config_tasks config)"

text \<open>
  The entries that \<open>registerCommand\<close> pushed onto the catalog (all but the initial \<open>help\<close>
  entry) have pairwise different names, and they are the keys of the registry.
\<close>

definition registered_once :: "cli \<Rightarrow> bool" where
  "registered_once st \<longleftrightarrow>
     distinct (map entry_name (tl (commandCatalog st))) \<and>
     set (map entry_name (tl (commandCatalog st))) = dom (commandRegistry st) \<and>
     commandCatalog st \<noteq> []"

section \<open>Dispatch\<close>

text \<open>
  What the process does that can be observed: console output, telemetry calls, child
  processes, and \<open>process.exit\<close>. \<open>PrintRootHelp\<close> and \<open>PrintCommandHelp name\<close> stand for the
  lines that \<open>printRootHelp()\<close> and a successful \<open>printCommandHelp(name)\<close> write.
\<close>

datatype event =
    PrintRootHelp
  | PrintCommandHelp jsstring
  | PrintReportedVersion
  | Stdout jsstring
  | Stderr jsstring
  | UnknownHelpTopic jsstring
  | Track jsstring jsstring jsstring
  | Spawn jsstring "jsstring list"
  | Exit int

text \<open>\<open>printCommandHelp\<close> returns whether \<open>name\<close> is one of the cases of its \<open>switch\<close>.\<close>

definition printCommandHelp :: "jsstring \<Rightarrow> bool" where
  "printCommandHelp name \<longleftrightarrow>
     name \<in> set [js ''help'', js ''commit'', js ''commitPush'', js ''dbOpen'', js ''dbClear'',
                 js ''update'', js ''setup'', js ''tasks'', js ''test'', js ''chat'', js ''version'']"

text \<open>\<open>handleTopLevel\<close> returns its boolean result and what it printed.\<close>

definition handleTopLevel :: "jsstring list \<Rightarrow> bool \<times> event list" where
  "handleTopLevel args =
     (case args of
        [] \<Rightarrow> (True, [PrintRootHelp])
      | primary # rest \<Rightarrow>
          if primary = [] then (True, [PrintRootHelp])
          else if primary = js ''--help'' \<or> primary = js ''-h'' \<or> primary = js ''h''
            then (True, [PrintRootHelp])
          else if primary = js ''--version'' then (True, [PrintReportedVersion])
          else if primary = js ''help'' then
            (case rest of
               [] \<Rightarrow> (True, [PrintRootHelp])
             | topic # _ \<Rightarrow>
                 if topic = [] then (True, [PrintRootHelp])
                 else if printCommandHelp topic then (True, [PrintCommandHelp topic])
                 else (True, [UnknownHelpTopic topic]))
          else if length args > 1 \<and> (last args = js ''--help'' \<or> last args = js ''-h'') then
            (if printCommandHelp primary then (True, [PrintCommandHelp primary])
             else (True, [PrintRootHelp]))
          else (False, []))"

text \<open>
  Running a handler is the environment's business: \<open>run handler\<close> is what the handler does
  and whether it throws. \<open>executeCommandWithTelemetry\<close> brackets it with telemetry calls and
  rethrows.
\<close>

type_synonym runner = "CommandHandler \<Rightarrow> (error + unit) \<times> event list"

definition executeCommandWithTelemetry ::
  "runner \<Rightarrow> jsstring \<Rightarrow> CommandHandler \<Rightarrow> (error + unit) \<times> event list" where
  "executeCommandWithTelemetry run name handler =
     (case run handler of
        (Inr u, evs) \<Rightarrow>
          (Inr u, [Track (js ''info'') (js ''command_start'') name] @ evs @
                  [Track (js ''info'') (js ''command_success'') name])
      | (Inl e, evs) \<Rightarrow>
          (Inl e, [Track (js ''info'') (js ''command_start'') name] @ evs @
                  [Track (js ''error'') (js ''command_failure'') name]))"

fun call :: "runner \<Rightarrow> RegisteredHandler \<Rightarrow> (error + unit) \<times> event list" where
  "call run (WithTelemetry name handler) = executeCommandWithTelemetry run name handler"

text \<open>
  The part of \<open>main\<close> from \<open>handleTopLevel(args)\<close> to the end: what happens once the
  argument vector is known.
\<close>

definition dispatch :: "runner \<Rightarrow> cli \<Rightarrow> jsstring list \<Rightarrow> event list" where
  "dispatch run st args =
     (case handleTopLevel args of
        (True, out) \<Rightarrow> out
      | (False, out) \<Rightarrow>
          (case args of
             [] \<Rightarrow> out @ [PrintRootHelp]
           | commandKey # _ \<Rightarrow>
               if commandKey = [] then out @ [PrintRootHelp]
               else (case commandRegistry st commandKey of
                       None \<Rightarrow>
                         out @ [Track (js ''warn'') (js ''command_not_found'') commandKey,
                                Stderr (js ''Unknown command: '' @ commandKey),
                                PrintRootHelp, Exit 1]
                     | Some handler \<Rightarrow>
                         if js ''--help'' \<in> set args \<or> js ''-h'' \<in> set args then
                           (if printCommandHelp commandKey then out @ [PrintCommandHelp commandKey]
                            else out @ [PrintRootHelp])
                         else
                           (case call run handler of
                              (Inr _, evs) \<Rightarrow> out @ evs
                            | (Inl (Error message), evs) \<Rightarrow> out @ evs @ [Stderr message, Exit 1]))))"

text \<open>
  The first tokens that \<open>handleTopLevel\<close> answers by itself, and what it prints for
  \<open>help\<close> followed by \<open>rest\<close>.
\<close>

definition top_level_token :: "jsstring \<Rightarrow> bool" where
  "top_level_token c \<longleftrightarrow>
     c = js ''--help'' \<or> c = js ''-h'' \<or> c = js ''h'' \<or> c = js ''--version'' \<or> c = js ''help''"

definition help_output :: "jsstring list \<Rightarrow> event list" where
  "help_output rest =
     (case rest of
        [] \<Rightarrow> [PrintRootHelp]
      | topic # _ \<Rightarrow>
          if topic = [] then [PrintRootHelp]
          else if printCommandHelp topic then [PrintCommandHelp topic]
          else [UnknownHelpTopic topic])"

section \<open>Interactive palette\<close>

datatype CommandPaletteResult = Command "jsstring list" | Cancel int | Fallback

text \<open>
  How the \<open>fzf\<close> child ends: the \<open>error\<close> event (it could not be spawned), or the \<open>close\<close>
  event with its exit code (\<open>null\<close> when a signal killed it) after writing \<open>stdout\<close>.
\<close>

datatype selector_outcome = SelectorError | SelectorClose "int option" jsstring

definition palette_input :: "CommandCatalogEntry list \<Rightarrow> jsstring" where
  "palette_input catalog = concat (map (\<lambda>e. entry_name e @ [TAB] @ entry_description e @ [LF]) catalog)"

definition selectCommandArgs ::
  "bool \<Rightarrow> bool \<Rightarrow> bool \<Rightarrow> (jsstring \<Rightarrow> selector_outcome) \<Rightarrow> cli \<Rightarrow> CommandPaletteResult" where
  "selectCommandArgs stdinTTY stdoutTTY hasFzf fzf st =
     (if \<not> stdinTTY \<or> \<not> stdoutTTY then Fallback
      else if \<not> hasFzf then Fallback
      else (case fzf (palette_input (commandCatalog st)) of
              SelectorError \<Rightarrow> Fallback
            | SelectorClose code stdout \<Rightarrow>
                if code = Some 0 then
                  (case find (\<lambda>line. length (trim line) > 0) (split_lines stdout) of
                     None \<Rightarrow> Fallback
                   | Some firstLine \<Rightarrow>
                       if firstLine = [] then Fallback
                       else (let selection = trim (takeWhile (\<lambda>c. c \<noteq> TAB) firstLine)
                             in if selection = [] then Fallback else Command [selection]))
                else Cancel (case code of None \<Rightarrow> 1 | Some c \<Rightarrow> c)))"

text \<open>
  The part of \<open>main\<close> after the registrations: the palette when there are no arguments, then
  \<open>dispatch\<close>. \<open>selection\<close> is the result of \<open>selectCommandArgs()\<close>, used only when \<open>args\<close> is
  empty.
\<close>

definition main_args :: "runner \<Rightarrow> cli \<Rightarrow> CommandPaletteResult \<Rightarrow> jsstring list \<Rightarrow> event list" where
  "main_args run st selection args =
     (if length args = 0 then
        (case selection of
           Command selected \<Rightarrow> dispatch run st selected
         | Cancel code \<Rightarrow> (if code \<noteq> 0 then [Exit code] else [])
         | Fallback \<Rightarrow> [PrintRootHelp])
      else dispatch run st args)"

section \<open>Configured tasks\<close>

text \<open>
  How a child process ends: the \<open>error\<close> event, or the \<open>close\<close> event with its exit code,
  which is \<open>null\<close> when a signal terminated the process. The shell is the environment:
  \<open>sh k command\<close> is how \<open>bash -lc command\<close> ends when it is the \<open>k\<close>-th process the task
  has spawned (counting from 0).
\<close>

datatype close_result = SpawnError error | Closed "int option"

type_synonym shell = "nat \<Rightarrow> jsstring \<Rightarrow> close_result"

definition task_exit_message :: "jsstring \<Rightarrow> int option \<Rightarrow> jsstring" where
  "task_exit_message name code =
     js ''Task '' @ [SQUOTE] @ name @ [SQUOTE] @ js '' command exited with code '' @
     show_int (case code of None \<Rightarrow> - 1 | Some c \<Rightarrow> c)"

definition executeTaskCommand :: "shell \<Rightarrow> nat \<Rightarrow> jsstring \<Rightarrow> jsstring \<Rightarrow> (error + unit) \<times> event list" where
  "executeTaskCommand sh k command name =
     (case sh k command of
        SpawnError e \<Rightarrow> (Inl e, [Spawn (js ''bash'') [js ''-lc'', command]])
      | Closed code \<Rightarrow>
          if code = Some 0 then (Inr (), [Spawn (js ''bash'') [js ''-lc'', command]])
          else (Inl (Error (task_exit_message name code)), [Spawn (js ''bash'') [js ''-lc'', command]]))"

text \<open>The \<open>for\<close> loop of \<open>runConfiguredTask\<close>; an error thrown by a command leaves the loop.\<close>

fun runCommands :: "shell \<Rightarrow> jsstring \<Rightarrow> nat \<Rightarrow> jsstring list \<Rightarrow> (error + unit) \<times> event list" where
  "runCommands sh name k [] = (Inr (), [])"
| "runCommands sh name k (command # rest) =
     (case executeTaskCommand sh k command name of
        (Inl e, evs) \<Rightarrow> (Inl e, evs)
      | (Inr _, evs) \<Rightarrow> (case runCommands sh name (Suc k) rest of (r, evs') \<Rightarrow> (r, evs @ evs')))"

definition task_not_found_message :: "jsstring \<Rightarrow> jsstring" where
  "task_not_found_message name =
     js ''Task '' @ [SQUOTE] @ name @ [SQUOTE] @ js '' not found in '' @ ONE_F_CONFIG_FILENAME"

definition task_no_commands_message :: "jsstring \<Rightarrow> jsstring" where
  "task_no_commands_message name =
     js ''Task '' @ [SQUOTE] @ name @ [SQUOTE] @ js '' has no commands to run''"

text \<open>
  \<open>loadOneFConfig\<close> is the result of reading and parsing the configuration file: an error,
  \<open>null\<close> when there is no file, or the configuration.
\<close>

definition runConfiguredTask ::
  "shell \<Rightarrow> error + OneFConfig option \<Rightarrow> jsstring \<Rightarrow> OneFTaskConfig option \<Rightarrow> (error + unit) \<times> event list" where
  "runConfiguredTask sh loadOneFConfig name configOverride =
     (case (case configOverride of
              Some c \<Rightarrow> Inr (Some c)
            | None \<Rightarrow>
                (case loadOneFConfig of
                   Inl e \<Rightarrow> Inl e
                 | Inr None \<Rightarrow> Inr None
                 | Inr (Some loaded) \<Rightarrow>
                     (case tasks loaded of None \<Rightarrow> Inr None | Some ts \<Rightarrow> Inr (map_of ts name)))) of
        Inl e \<Rightarrow> (Inl e, [])
      | Inr None \<Rightarrow> (Inl (Error (task_not_found_message name)), [])
      | Inr (Some config) \<Rightarrow>
          (let commands = (case cmds config of None \<Rightarrow> [] | Some cs \<Rightarrow> cs)
           in if length commands = 0 then (Inl (Error (task_no_commands_message name)), [])
              else runCommands sh name 0 commands))"

section \<open>Secret validation\<close>

text \<open>
  \<open>process.env\<close> is an object: its own properties are the environment variables, which are
  strings, and a key that is no environment variable is looked up in \<open>Object.prototype\<close>.
  So \<open>process.env[key]\<close> is a string, or \<open>undefined\<close>, or, for the names of the properties of
  \<open>Object.prototype\<close>, a function or an object. An environment is the map of its variables.
\<close>

definition object_prototype_keys :: "jsstring list" where
  "object_prototype_keys =
     [js ''constructor'', js ''__defineGetter__'', js ''__defineSetter__'', js ''hasOwnProperty'',
      js ''__lookupGetter__'', js ''__lookupSetter__'', js ''isPrototypeOf'',
      js ''propertyIsEnumerable'', js ''toString'', js ''valueOf'', js ''__proto__'',
      js ''toLocaleString'']"

datatype env_value = EnvUndefined | EnvString jsstring | EnvInherited

definition env_get :: "(jsstring \<rightharpoonup> jsstring) \<Rightarrow> jsstring \<Rightarrow> env_value" where
  "env_get env key =
     (case env key of
        Some v \<Rightarrow> EnvString v
      | None \<Rightarrow> if key \<in> set object_prototype_keys then EnvInherited else EnvUndefined)"

text \<open>
  An inherited value is truthy and has no \<open>trim\<close> method, so \<open>raw.trim()\<close> throws a
  \<open>TypeError\<close>; its message is the engine's (this is the wording of V8).
\<close>

definition trim_type_error :: error where
  "trim_type_error = Error (js ''raw.trim is not a function'')"

definition lookupNonEmptyEnv :: "(jsstring \<rightharpoonup> jsstring) \<Rightarrow> jsstring \<Rightarrow> error + jsstring option" where
  "lookupNonEmptyEnv env key =
     (case env_get env key of
        EnvUndefined \<Rightarrow> Inr None
      | EnvInherited \<Rightarrow> Inl trim_type_error
      | EnvString raw \<Rightarrow>
          if raw = [] then Inr None
          else (let trimmed = trim raw in if length trimmed > 0 then Inr (Some trimmed) else Inr None))"

definition line_set :: "jsstring \<Rightarrow> jsstring \<Rightarrow> jsstring" where
  "line_set label envName = [0x2714, 0xFE0F] @ js '' '' @ label @ js '' ('' @ envName @ js '') is set''"

definition line_default :: "jsstring \<Rightarrow> jsstring \<Rightarrow> jsstring \<Rightarrow> jsstring" where
  "line_default label envName dflt =
     [0x26A0, 0xFE0F] @ js '' '' @ label @ js '' ('' @ envName @ js '') missing; default '' @
     [SQUOTE] @ dflt @ [SQUOTE] @ js '' will be used''"

definition line_required :: "jsstring \<Rightarrow> jsstring \<Rightarrow> jsstring option \<Rightarrow> jsstring" where
  "line_required label envName description =
     [0x274C] @ js '' '' @ label @ js '' ('' @ envName @ js '') is required: '' @
     (case description of Some d \<Rightarrow> d | None \<Rightarrow> js ''no description provided'')"

definition line_optional :: "jsstring \<Rightarrow> jsstring \<Rightarrow> jsstring" where
  "line_optional label envName = [0x2022] @ js '' '' @ label @ js '' ('' @ envName @ js '') not set (optional)''"

text \<open>
  The \<open>for\<close> loop of \<open>validateSecrets\<close> over the entries of the secret table, with the two
  arrays \<open>lines\<close> and \<open>missing\<close> it pushes onto.
\<close>

fun validate_entries ::
  "(jsstring \<rightharpoonup> jsstring) \<Rightarrow> (jsstring \<times> OneFSecretConfig) list \<Rightarrow> jsstring list \<Rightarrow> jsstring list \<Rightarrow>
   error + jsstring list \<times> jsstring list" where
  "validate_entries env [] lines missing = Inr (lines, missing)"
| "validate_entries env ((envName, secretConfig) # rest) lines missing =
     (let label = (case secret_label secretConfig of Some l \<Rightarrow> l | None \<Rightarrow> envName);
          required = (case secret_required secretConfig of Some r \<Rightarrow> r | None \<Rightarrow> False)
      in case lookupNonEmptyEnv env envName of
           Inl e \<Rightarrow> Inl e
         | Inr (Some envValue) \<Rightarrow> validate_entries env rest (lines @ [line_set label envName]) missing
         | Inr None \<Rightarrow>
             if required then
               (case secret_default secretConfig of
                  Some dflt \<Rightarrow>
                    validate_entries env rest (lines @ [line_default label envName dflt]) missing
                | None \<Rightarrow>
                    validate_entries env rest
                      (lines @ [line_required label envName (secret_description secretConfig)])
                      (missing @ [envName]))
             else validate_entries env rest (lines @ [line_optional label envName]) missing)"

text \<open>\<open>validateSecrets\<close> returns the pair \<open>(lines, missing)\<close>, or throws what the lookup throws.\<close>

definition validateSecrets ::
  "(jsstring \<rightharpoonup> jsstring) \<Rightarrow> OneFConfig \<Rightarrow> error + jsstring list \<times> jsstring list" where
  "validateSecrets env config =
     (case secrets config of
        None \<Rightarrow> Inr ([js ''No secrets defined in '' @ ONE_F_CONFIG_FILENAME @ js ''.''], [])
      | Some ss \<Rightarrow>
          if length ss = 0 then Inr ([js ''No secrets defined in '' @ ONE_F_CONFIG_FILENAME @ js ''.''], [])
          else validate_entries env ss [] [])"

definition missing_secrets_message :: "jsstring list \<Rightarrow> jsstring" where
  "missing_secrets_message missing = js ''Missing required secrets: '' @ join (js '', '') missing"

definition runSetup ::
  "shell \<Rightarrow> (jsstring \<rightharpoonup> jsstring) \<Rightarrow> error + OneFConfig option \<Rightarrow> (error + unit) \<times> event list" where
  "runSetup sh env loadOneFConfig =
     (case loadOneFConfig of
        Inl e \<Rightarrow> (Inl e, [])
      | Inr None \<Rightarrow>
          (Inr (), [Stdout (js ''No '' @ ONE_F_CONFIG_FILENAME @ js '' found. Nothing to validate.'')])
      | Inr (Some config) \<Rightarrow>
          (case validateSecrets env config of
             Inl e \<Rightarrow> (Inl e, [])
           | Inr (lines, missing) \<Rightarrow>
               if length missing > 0 then
                 (Inl (Error (missing_secrets_message missing)), map Stdout lines)
               else
                 (case (case tasks config of None \<Rightarrow> None | Some ts \<Rightarrow> map_of ts (js ''setup'')) of
                    Some setup \<Rightarrow>
                      (case runConfiguredTask sh loadOneFConfig (js ''setup'') (Some setup) of
                         (r, evs) \<Rightarrow>
                           (r, map Stdout lines @ [Stdout (js ''Running setup task commands...'')] @ evs))
                  | None \<Rightarrow>
                      (Inr (), map Stdout lines @
                               [Stdout (js ''No setup task defined; environment looks good.'')]))))"

text \<open>
  What the spec says \<open>validateSecrets\<close> records for one secret, and whether that secret goes
  on the failure list.
\<close>

definition secret_is_set :: "(jsstring \<rightharpoonup> jsstring) \<Rightarrow> jsstring \<Rightarrow> bool" where
  "secret_is_set env envName \<longleftrightarrow> (case env envName of None \<Rightarrow> False | Some raw \<Rightarrow> trim raw \<noteq> [])"

definition secret_line :: "(jsstring \<rightharpoonup> jsstring) \<Rightarrow> jsstring \<times> OneFSecretConfig \<Rightarrow> jsstring" where
  "secret_line env entry =
     (case entry of (envName, secretConfig) \<Rightarrow>
        (let label = (case secret_label secretConfig of Some l \<Rightarrow> l | None \<Rightarrow> envName)
         in if secret_is_set env envName then line_set label envName
            else if secret_required secretConfig = Some True then
              (case secret_default secretConfig of
                 Some dflt \<Rightarrow> line_default label envName dflt
               | None \<Rightarrow> line_required label envName (secret_description secretConfig))
            else line_optional label envName))"

definition secret_missing :: "(jsstring \<rightharpoonup> jsstring) \<Rightarrow> jsstring \<times> OneFSecretConfig \<Rightarrow> bool" where
  "secret_missing env entry \<longleftrightarrow>
     \<not> secret_is_set env (fst entry) \<and> secret_required (snd entry) = Some True \<and>
     secret_default (snd entry) = None"

text \<open>The \<open>config.tasks?.setup\<close> that \<open>runSetup\<close> looks up.\<close>

definition setup_task :: "OneFConfig \<Rightarrow> OneFTaskConfig option" where
  "setup_task config = (case tasks config of None \<Rightarrow> None | Some ts \<Rightarrow> map_of ts (js ''setup''))"

section \<open>Commit message formatting\<close>

definition trimMatchingQuotes :: "jsstring \<Rightarrow> jsstring" where
  "trimMatchingQuotes input =
     (if length input \<ge> 2 then
        (let first = hd input; lst = last input
         in if (first = DQUOTE \<and> lst = DQUOTE) \<or> (first = SQUOTE \<and> lst = SQUOTE)
            then butlast (tl input) else input)
      else input)"

text \<open>\<open>line.replace(/[\t ]+$/, "")\<close>\<close>

definition strip_trailing_blanks :: "jsstring \<Rightarrow> jsstring" where
  "strip_trailing_blanks line = rev (dropWhile (\<lambda>c. c = TAB \<or> c = SPC) (rev line))"

text \<open>
  The \<open>for\<close> loop of \<open>splitCommitMessageParagraphs\<close> over the lines, with the arrays
  \<open>paragraphs\<close> and \<open>current\<close>, and the statement after the loop.
\<close>

fun paragraphs_loop :: "jsstring list \<Rightarrow> jsstring list \<Rightarrow> jsstring list \<Rightarrow> jsstring list" where
  "paragraphs_loop [] paragraphs current =
     (if length current > 0 then paragraphs @ [trimEnd (join [LF] current)] else paragraphs)"
| "paragraphs_loop (line # lines) paragraphs current =
     (if trim line = [] then
        (if length current > 0 then paragraphs_loop lines (paragraphs @ [trimEnd (join [LF] current)]) []
         else paragraphs_loop lines paragraphs current)
      else paragraphs_loop lines paragraphs (current @ [strip_trailing_blanks line]))"

definition splitCommitMessageParagraphs :: "jsstring \<Rightarrow> jsstring list" where
  "splitCommitMessageParagraphs message = paragraphs_loop (split_lines message) [] []"

record CommitPayload =
  message :: jsstring
  paragraphs :: "jsstring list"

text \<open>
  The statements of \<open>prepareCommit\<close> that follow the call of \<open>generateCommitMessage\<close>: trim,
  strip quotes, split, and reject an empty result.
\<close>

definition format_message :: "jsstring \<Rightarrow> error + CommitPayload" where
  "format_message generated =
     (let trimmedMessage = trimMatchingQuotes (trim generated)
      in if trimmedMessage = [] then Inl (Error (js ''Commit message is empty''))
         else (let ps = splitCommitMessageParagraphs trimmedMessage
               in if length ps = 0 then Inl (Error (js ''Commit message is empty after formatting''))
                  else Inr \<lparr> message = trimmedMessage, paragraphs = ps \<rparr>))"

text \<open>
  The environment of the commit workflow: what each \<open>git\<close> invocation and the completion API
  answer. A captured command (\<open>execFile\<close>) yields its standard output or an error; a streamed
  one (\<open>spawn\<close>) yields how it ended.
\<close>

record commit_world =
  git_rev_parse :: "error + jsstring"
  process_env :: "jsstring \<rightharpoonup> jsstring"
  git_add :: close_result
  git_diff_cached :: "error + jsstring"
  git_status_short :: "error + jsstring"
  streamText :: completion
  git_commit :: "jsstring list \<Rightarrow> close_result"
  git_push :: close_result

definition runCommandStreaming :: "close_result \<Rightarrow> jsstring \<Rightarrow> jsstring list \<Rightarrow> (error + unit) \<times> event list" where
  "runCommandStreaming outcome command args =
     (case outcome of
        SpawnError e \<Rightarrow> (Inl e, [Spawn command args])
      | Closed code \<Rightarrow>
          if code = Some 0 then (Inr (), [Spawn command args])
          else (Inl (Error (command @ js '' '' @ join (js '' '') args @ js '' exited with code '' @
                            (case code of None \<Rightarrow> js ''null'' | Some c \<Rightarrow> show_int c))),
                [Spawn command args]))"

definition resolveOpenAIKey :: "jsstring \<Rightarrow> (jsstring \<rightharpoonup> jsstring) \<Rightarrow> error + jsstring" where
  "resolveOpenAIKey commandName env =
     (case lookupNonEmptyEnv env (js ''OPENAI_API_KEY'') of
        Inl e \<Rightarrow> Inl e
      | Inr None \<Rightarrow>
          Inl (Error (js ''OPENAI_API_KEY is not set; export it before running '' @ commandName @
                      js '' commit''))
      | Inr (Some v) \<Rightarrow> Inr v)"

text \<open>
  \<open>prepareCommit\<close>, split at its \<open>await\<close>s: the repository check and the key, staging and the
  diff, then the message.
\<close>

definition prepare_message :: "commit_world \<Rightarrow> jsstring \<Rightarrow> jsstring \<Rightarrow> error + CommitPayload" where
  "prepare_message w apiKey diff =
     (case truncateDiffForCommit diff of
        (truncatedDiff, truncated) \<Rightarrow>
          (let status = (case git_status_short w of Inl e \<Rightarrow> [] | Inr out \<Rightarrow> out)
           in case generateCommitMessage (streamText w) apiKey truncatedDiff status truncated of
                Inl e \<Rightarrow> Inl e
              | Inr generated \<Rightarrow> format_message generated))"

definition prepareCommit :: "commit_world \<Rightarrow> jsstring \<Rightarrow> (error + CommitPayload) \<times> event list" where
  "prepareCommit w commandName =
     (case git_rev_parse w of
        Inl e \<Rightarrow> (Inl e, [Spawn (js ''git'') [js ''rev-parse'', js ''--is-inside-work-tree'']])
      | Inr out \<Rightarrow>
          if trim out \<noteq> js ''true'' then
            (Inl (Error (js ''Not inside a git repository'')),
             [Spawn (js ''git'') [js ''rev-parse'', js ''--is-inside-work-tree'']])
          else
            (case resolveOpenAIKey commandName (process_env w) of
               Inl e \<Rightarrow> (Inl e, [Spawn (js ''git'') [js ''rev-parse'', js ''--is-inside-work-tree'']])
             | Inr apiKey \<Rightarrow>
                 (case runCommandStreaming (git_add w) (js ''git'') [js ''add'', js ''.''] of
                    (Inl e, evs) \<Rightarrow>
                      (Inl e, [Spawn (js ''git'') [js ''rev-parse'', js ''--is-inside-work-tree'']] @ evs)
                  | (Inr _, evs) \<Rightarrow>
                      (case git_diff_cached w of
                         Inl e \<Rightarrow>
                           (Inl e, [Spawn (js ''git'') [js ''rev-parse'', js ''--is-inside-work-tree'']] @ evs @
                                   [Spawn (js ''git'') [js ''diff'', js ''--cached'']])
                       | Inr diff \<Rightarrow>
                           if trim diff = [] then
                             (Inl (Error (js ''No staged changes to commit; stage files with git add'')),
                              [Spawn (js ''git'') [js ''rev-parse'', js ''--is-inside-work-tree'']] @ evs @
                              [Spawn (js ''git'') [js ''diff'', js ''--cached'']])
                           else
                             (prepare_message w apiKey diff,
                              [Spawn (js ''git'') [js ''rev-parse'', js ''--is-inside-work-tree'']] @ evs @
                              [Spawn (js ''git'') [js ''diff'', js ''--cached''],
                               Spawn (js ''git'') [js ''status'', js ''--short'']])))))"

definition commit_args :: "CommitPayload \<Rightarrow> jsstring list" where
  "commit_args payload = js ''commit'' # concat (map (\<lambda>paragraph. [js ''-m'', paragraph]) (paragraphs payload))"

definition runCommitPushWorkflow :: "commit_world \<Rightarrow> jsstring \<Rightarrow> jsstring \<Rightarrow> (error + unit) \<times> event list" where
  "runCommitPushWorkflow w commandName label =
     (if label \<noteq> js ''commit'' \<and> label \<noteq> js ''commitPush'' then
        (Inl (Error (js ''Unsupported commit workflow: '' @ label)), [])
      else
        (case prepareCommit w commandName of
           (Inl e, evs) \<Rightarrow> (Inl e, evs)
         | (Inr payload, evs) \<Rightarrow>
             (case runCommandStreaming (git_commit w (commit_args payload)) (js ''git'') (commit_args payload) of
                (Inl e, evs') \<Rightarrow>
                  (Inl e, evs @ [Stdout (js ''Proposed commit message:'' @ [LF] @ message payload @ [LF])] @ evs')
              | (Inr _, evs') \<Rightarrow>
                  (case runCommandStreaming (git_push w) (js ''git'') [js ''push''] of
                     (Inl e, evs'') \<Rightarrow>
                       (Inl e, evs @ [Stdout (js ''Proposed commit message:'' @ [LF] @ message payload @ [LF])] @ evs' @
                               (if length (paragraphs payload) > 0
                                then [Stdout ([0x2714, 0xFE0F] @ js '' Committed with message: '' @ hd (paragraphs payload))]
                                else []) @ evs'')
                   | (Inr _, evs'') \<Rightarrow>
                       (Inr (), evs @ [Stdout (js ''Proposed commit message:'' @ [LF] @ message payload @ [LF])] @ evs' @
                                (if length (paragraphs payload) > 0
                                 then [Stdout ([0x2714, 0xFE0F] @ js '' Committed with message: '' @ hd (paragraphs payload))]
                                 else []) @ evs'' @ [Stdout ([0x2714, 0xFE0F] @ js '' Pushed'')])))))"





section \<open>Command identity\<close>

text \<open>
  \<open>path.basename\<close> and \<open>path.extname\<close> are functions of the runtime's library, here as
  they behave on POSIX paths, and \<open>s.replace(pattern, replacement)\<close> with a string pattern
  replaces its first occurrence.
\<close>

definition SLASH :: jschar where "SLASH = 0x2F"
definition DOT :: jschar where "DOT = 0x2E"

definition basename :: "jsstring \<Rightarrow> jsstring" where
  "basename p = rev (takeWhile (\<lambda>c. c \<noteq> SLASH) (dropWhile (\<lambda>c. c = SLASH) (rev p)))"

definition extname :: "jsstring \<Rightarrow> jsstring" where
  "extname p =
     (let b = basename p;
          after = rev (takeWhile (\<lambda>c. c \<noteq> DOT) (rev b));
          before = butlast (rev (dropWhile (\<lambda>c. c \<noteq> DOT) (rev b)))
      in if DOT \<notin> set b then []
         else if before = [] then []
         else if b = [DOT, DOT] then []
         else DOT # after)"

fun replace_first :: "jsstring \<Rightarrow> jsstring \<Rightarrow> jsstring \<Rightarrow> jsstring" where
  "replace_first pat rep [] = (if pat = [] then rep else [])"
| "replace_first pat rep (c # cs) =
     (if prefix pat (c # cs) then rep @ drop (length pat) (c # cs)
      else c # replace_first pat rep cs)"

record identity =
  commandName :: jsstring
  commandSummary :: jsstring
  reportedVersion :: jsstring

definition DEFAULT_COMMAND_NAME :: jsstring where
  "DEFAULT_COMMAND_NAME = js ''fast''"

definition summary_of :: "jsstring \<Rightarrow> jsstring" where
  "summary_of n = n @ js '' is CLI to move faster in software projects''"

definition initial_identity :: identity where
  "initial_identity =
     \<lparr> commandName = DEFAULT_COMMAND_NAME,
       commandSummary = js ''fast is CLI to move faster in software projects'',
       reportedVersion = js ''1.0.0'' \<rparr>"

definition applyCommandIdentity :: "jsstring option \<Rightarrow> bool \<Rightarrow> identity \<Rightarrow> identity" where
  "applyCommandIdentity candidate summaryLocked idn =
     (case candidate of
        None \<Rightarrow> idn
      | Some cand \<Rightarrow>
          if cand = [] then idn
          else (let trimmed = trim cand
                in if trimmed = [] then idn
                   else (let replaced = replace_first (extname trimmed) [] (basename trimmed);
                             base = (if replaced \<noteq> [] then replaced else trimmed);
                             idn1 = idn\<lparr> commandName := base \<rparr>
                         in if \<not> summaryLocked then idn1\<lparr> commandSummary := summary_of base \<rparr>
                            else idn1)))"

record IdentityLocks =
  nameLocked :: bool
  summaryLocked :: bool

text \<open>\<open>argv1\<close> is \<open>process.argv[1]\<close>, which may be undefined.\<close>

definition configureCommandIdentity ::
  "(jsstring \<rightharpoonup> jsstring) \<Rightarrow> jsstring option \<Rightarrow> identity \<Rightarrow> error + IdentityLocks \<times> identity" where
  "configureCommandIdentity env argv1 idn =
     (case lookupNonEmptyEnv env (js ''FLOW_COMMAND_SUMMARY'') of
        Inl e \<Rightarrow> Inl e
      | Inr summary \<Rightarrow>
          (let sLocked = (summary \<noteq> None);
               idn1 = (case summary of Some s \<Rightarrow> idn\<lparr> commandSummary := s \<rparr> | None \<Rightarrow> idn)
           in case lookupNonEmptyEnv env (js ''FLOW_COMMAND_NAME'') of
                Inl e \<Rightarrow> Inl e
              | Inr (Some n) \<Rightarrow>
                  Inr (\<lparr> nameLocked = True, summaryLocked = sLocked \<rparr>,
                       applyCommandIdentity (Some n) sLocked idn1)
              | Inr None \<Rightarrow>
                  Inr (\<lparr> nameLocked = False, summaryLocked = sLocked \<rparr>,
                       applyCommandIdentity
                         (Some (case argv1 of Some a \<Rightarrow> a | None \<Rightarrow> DEFAULT_COMMAND_NAME))
                         sLocked idn1)))"

definition applyAppMetadata :: "OneFAppConfig option \<Rightarrow> IdentityLocks \<Rightarrow> identity \<Rightarrow> identity" where
  "applyAppMetadata app_cfg locks idn =
     (case app_cfg of
        None \<Rightarrow> idn
      | Some a \<Rightarrow>
          (let appName = map_option trim (app_name a);
               appDescription = map_option trim (app_description a);
               hasName = (appName \<noteq> None \<and> appName \<noteq> Some []);
               hasDescription = (appDescription \<noteq> None \<and> appDescription \<noteq> Some []);
               idn1 = (if hasName \<and> \<not> nameLocked locks
                       then applyCommandIdentity appName (summaryLocked locks \<or> hasDescription) idn
                       else idn);
               idn2 = (if \<not> summaryLocked locks then
                         (if hasDescription then idn1\<lparr> commandSummary := the appDescription \<rparr>
                          else if hasName then idn1\<lparr> commandSummary := summary_of (the appName) \<rparr>
                          else idn1)
                       else idn1)
           in case app_version a of
                Some v \<Rightarrow> (if trim v \<noteq> [] then idn2\<lparr> reportedVersion := trim v \<rparr> else idn2)
              | None \<Rightarrow> idn2))"

text \<open>The identity once \<open>main\<close> has run \<open>configureCommandIdentity\<close> and \<open>applyAppMetadata\<close>.\<close>

definition resolve_identity ::
  "(jsstring \<rightharpoonup> jsstring) \<Rightarrow> jsstring option \<Rightarrow> OneFConfig option \<Rightarrow> error + identity" where
  "resolve_identity env argv1 config =
     (case configureCommandIdentity env argv1 initial_identity of
        Inl e \<Rightarrow> Inl e
      | Inr (locks, idn) \<Rightarrow>
          Inr (applyAppMetadata (case config of None \<Rightarrow> None | Some c \<Rightarrow> app c) locks idn))"

text \<open>
  The identity as the precedence rule gives it. \<open>env_override\<close> is the non-empty trimmed
  value of an environment variable; \<open>base_of\<close> is the name \<open>applyCommandIdentity\<close> derives
  from a candidate; the \<open>[app]\<close> fields count when they are strings that are not blank; and
  the invocation path counts when it is not blank. The name is taken from the environment,
  else from \<open>[app]\<close>, else from the invocation path. The summary is taken from the
  environment, else from the \<open>[app]\<close> description, else it is generated from the \<open>[app]\<close>
  name, else from the resolved name.
\<close>

definition env_override :: "(jsstring \<rightharpoonup> jsstring) \<Rightarrow> jsstring \<Rightarrow> jsstring option" where
  "env_override env key =
     (case env key of None \<Rightarrow> None | Some raw \<Rightarrow> if trim raw = [] then None else Some (trim raw))"

definition base_of :: "jsstring \<Rightarrow> jsstring" where
  "base_of candidate =
     (let trimmed = trim candidate; replaced = replace_first (extname trimmed) [] (basename trimmed)
      in if replaced \<noteq> [] then replaced else trimmed)"

definition non_blank :: "jsstring option \<Rightarrow> jsstring option" where
  "non_blank field = (case field of None \<Rightarrow> None | Some v \<Rightarrow> if trim v = [] then None else Some (trim v))"

definition config_app :: "OneFConfig option \<Rightarrow> OneFAppConfig option" where
  "config_app config = (case config of None \<Rightarrow> None | Some c \<Rightarrow> app c)"

definition config_app_name :: "OneFConfig option \<Rightarrow> jsstring option" where
  "config_app_name config = (case config_app config of None \<Rightarrow> None | Some a \<Rightarrow> non_blank (app_name a))"

definition config_app_description :: "OneFConfig option \<Rightarrow> jsstring option" where
  "config_app_description config =
     (case config_app config of None \<Rightarrow> None | Some a \<Rightarrow> non_blank (app_description a))"

definition config_app_version :: "OneFConfig option \<Rightarrow> jsstring option" where
  "config_app_version config =
     (case config_app config of None \<Rightarrow> None | Some a \<Rightarrow> non_blank (app_version a))"

definition invoked_name :: "jsstring option \<Rightarrow> jsstring" where
  "invoked_name invoked =
     (let candidate = (case invoked of Some a \<Rightarrow> a | None \<Rightarrow> DEFAULT_COMMAND_NAME)
      in if trim candidate = [] then DEFAULT_COMMAND_NAME else base_of candidate)"

definition resolved_name ::
  "(jsstring \<rightharpoonup> jsstring) \<Rightarrow> jsstring option \<Rightarrow> OneFConfig option \<Rightarrow> jsstring" where
  "resolved_name env invoked config =
     (case env_override env (js ''FLOW_COMMAND_NAME'') of
        Some n \<Rightarrow> base_of n
      | None \<Rightarrow> (case config_app_name config of Some a \<Rightarrow> base_of a | None \<Rightarrow> invoked_name invoked))"

definition resolved_summary ::
  "(jsstring \<rightharpoonup> jsstring) \<Rightarrow> jsstring option \<Rightarrow> OneFConfig option \<Rightarrow> jsstring" where
  "resolved_summary env invoked config =
     (case env_override env (js ''FLOW_COMMAND_SUMMARY'') of
        Some s \<Rightarrow> s
      | None \<Rightarrow>
          (case config_app_description config of
             Some d \<Rightarrow> d
           | None \<Rightarrow>
               (case config_app_name config of
                  Some a \<Rightarrow> summary_of a
                | None \<Rightarrow> summary_of (resolved_name env invoked config))))"

definition resolved_version :: "OneFConfig option \<Rightarrow> jsstring" where
  "resolved_version config = (case config_app_version config of Some v \<Rightarrow> v | None \<Rightarrow> js ''1.0.0'')"

section \<open>The whole program\<close>

text \<open>
  Everything outside the process that a run depends on. The handlers for the database, the
  dependency update, the task list, the test watcher and the chat are not modelled;
  \<open>other_handlers\<close> says what they do.
\<close>

record world =
  task_shell :: shell
  loadOneFConfig :: "error + OneFConfig option"
  commit_env :: commit_world
  other_handlers :: "CommandHandler \<Rightarrow> (error + unit) \<times> event list"
  argv1 :: "jsstring option"
  stdinTTY :: bool
  stdoutTTY :: bool
  hasFzf :: bool
  fzf :: "jsstring \<Rightarrow> selector_outcome"

text \<open>What each handler in the registry runs.\<close>

definition run_handler :: "world \<Rightarrow> identity \<Rightarrow> CommandHandler \<Rightarrow> (error + unit) \<times> event list" where
  "run_handler w idn handler =
     (case handler of
        RunCommitPushWorkflow label \<Rightarrow> runCommitPushWorkflow (commit_env w) (commandName idn) label
      | RunSetup \<Rightarrow> runSetup (task_shell w) (process_env (commit_env w)) (loadOneFConfig w)
      | LogReportedVersion \<Rightarrow> (Inr (), [PrintReportedVersion])
      | RunConfiguredTask taskName taskConfig \<Rightarrow>
          runConfiguredTask (task_shell w) (loadOneFConfig w) taskName (Some taskConfig)
      | _ \<Rightarrow> other_handlers w handler)"

text \<open>
  \<open>main\<close> on the arguments \<open>process.argv.slice(2)\<close>; an error that escapes it (from the
  identity lookup, or a configuration file that does not parse) is printed by the \<open>catch\<close> at
  the end of the file.
\<close>

definition main :: "world \<Rightarrow> jsstring list \<Rightarrow> event list" where
  "main w args =
     (case configureCommandIdentity (process_env (commit_env w)) (argv1 w) initial_identity of
        Inl (Error msg) \<Rightarrow> [Stderr msg, Exit 1]
      | Inr (locks, idn0) \<Rightarrow>
          (case loadOneFConfig w of
             Inl (Error msg) \<Rightarrow> [Track (js ''info'') (js ''cli_invocation'') [], Stderr msg, Exit 1]
           | Inr config \<Rightarrow>
               (let idn = applyAppMetadata (case config of None \<Rightarrow> None | Some c \<Rightarrow> app c) locks idn0;
                    st = startup config
                in Track (js ''info'') (js ''cli_invocation'') [] #
                   main_args (run_handler w idn) st
                     (selectCommandArgs (stdinTTY w) (stdoutTTY w) (hasFzf w) (fzf w) st) args)))"

definition bash_lc :: "jsstring \<Rightarrow> event" where
  "bash_lc command = Spawn (js ''bash'') [js ''-lc'', command]"

section \<open>Example inputs\<close>

text \<open>A configuration with two tasks, one of them named like a built-in.\<close>

definition example_task :: OneFTaskConfig where
  "example_task = \<lparr> desc = None, silent = None, cmds = Some [js ''make''] \<rparr>"

definition example_config :: OneFConfig where
  "example_config =
     \<lparr> app = None, secrets = None,
       tasks = Some [(js ''commit'', example_task), (js ''build'', example_task)] \<rparr>"

text \<open>
  The secrets \<open>A\<close> (required or not, with or without a default), \<open>B\<close> (optional) and
  \<open>constructor\<close> (optional).
\<close>

definition secret_A :: "bool \<Rightarrow> jsstring option \<Rightarrow> jsstring \<times> OneFSecretConfig" where
  "secret_A req dflt =
     (js ''A'', \<lparr> secret_label = None, secret_required = Some req, secret_description = None,
                secret_default = dflt \<rparr>)"

definition secret_B :: "jsstring \<times> OneFSecretConfig" where
  "secret_B =
     (js ''B'', \<lparr> secret_label = None, secret_required = None, secret_description = None,
                secret_default = None \<rparr>)"

definition secret_constructor :: "jsstring \<times> OneFSecretConfig" where
  "secret_constructor =
     (js ''constructor'', \<lparr> secret_label = None, secret_required = None, secret_description = None,
                          secret_default = None \<rparr>)"

definition secrets_config :: "(jsstring \<times> OneFSecretConfig) list \<Rightarrow> OneFConfig" where
  "secrets_config ss = \<lparr> app = None, secrets = Some ss, tasks = None \<rparr>"

text \<open>
  Three shells: every command succeeds; the command \<open>false\<close> exits with code 1; the second
  process is killed by a signal.
\<close>

definition no_shell :: shell where
  "no_shell k command = Closed (Some 0)"

definition failing_shell :: shell where
  "failing_shell k command = (if command = js ''false'' then Closed (Some 1) else Closed (Some 0))"

definition killed_shell :: shell where
  "killed_shell k command = (if k = 1 then Closed None else Closed (Some 0))"

text \<open>A task of three commands, a task without commands, and configurations that define them.\<close>

definition three_step_task :: OneFTaskConfig where
  "three_step_task =
     \<lparr> desc = None, silent = None, cmds = Some [js ''true'', js ''false'', js ''echo''] \<rparr>"

definition three_step_config :: OneFConfig where
  "three_step_config =
     \<lparr> app = None, secrets = None, tasks = Some [(js ''build'', three_step_task)] \<rparr>"



definition h_task_config :: OneFConfig where
  "h_task_config =
     \<lparr> app = None, secrets = None, tasks = Some [(js ''h'', three_step_task)] \<rparr>"

definition help_task_config :: OneFConfig where
  "help_task_config =
     \<lparr> app = None, secrets = None, tasks = Some [(js ''help'', three_step_task)] \<rparr>"

text \<open>
  An environment in which nothing fails: no configuration file, no terminal, and every
  process succeeds.
\<close>

definition quiet_commit_world :: commit_world where
  "quiet_commit_world =
     \<lparr> git_rev_parse = Inr (js ''true''), process_env = Map.empty, git_add = Closed (Some 0),
       git_diff_cached = Inr [], git_status_short = Inr [], streamText = (\<lambda>apiKey system prompt. Inr []),
       git_commit = (\<lambda>args. Closed (Some 0)), git_push = Closed (Some 0) \<rparr>"

definition quiet_world :: world where
  "quiet_world =
     \<lparr> task_shell = no_shell, loadOneFConfig = Inr None, commit_env = quiet_commit_world,
       other_handlers = (\<lambda>handler. (Inr (), [])), argv1 = None, stdinTTY = False, stdoutTTY = False,
       hasFzf = False, fzf = (\<lambda>input. SelectorError) \<rparr>"

definition failing_world :: world where
  "failing_world = quiet_world\<lparr> task_shell := failing_shell \<rparr>"

text \<open>A selector that prints \<open>out\<close> and closes with \<open>code\<close>, whatever it is offered.\<close>

definition selector_printing :: "int option \<Rightarrow> jsstring \<Rightarrow> jsstring \<Rightarrow> selector_outcome" where
  "selector_printing code out input = SelectorClose code out"





text \<open>
  An environment that forces the command name, and a configuration that names the
  application.
\<close>

definition forced_name_env :: "jsstring \<rightharpoonup> jsstring" where
  "forced_name_env = [js ''FLOW_COMMAND_NAME'' \<mapsto> js ''foo'']"

definition bar_app_config :: OneFConfig where
  "bar_app_config =
     \<lparr> app = Some \<lparr> app_name = Some (js ''bar''), app_description = None, app_version = None \<rparr>,
       secrets = None, tasks = None \<rparr>"

section \<open>Properties\<close>

subsection \<open>Strings and the environment\<close>

lemma dropWhile_rev_prefix:
  assumes "y = [] \<or> \<not> P (hd y)"
  shows "dropWhile P (rev (dropWhile P (rev y))) = rev (dropWhile P (rev y))"
proof (cases "rev (dropWhile P (rev y))")
  case Nil
  show ?thesis unfolding Nil by simp
next
  case (Cons a z)
  have "rev y = takeWhile P (rev y) @ dropWhile P (rev y)" by simp
  then have "y = rev (dropWhile P (rev y)) @ rev (takeWhile P (rev y))"
    by (metis rev_append rev_rev_ident)
  then have "y = (a # z) @ rev (takeWhile P (rev y))" using Cons by simp
  then have "y \<noteq> []" "hd y = a" by (metis append_Cons list.distinct(1), metis append_Cons list.sel(1))
  then have "\<not> P a" using assms by auto
  then show ?thesis using Cons by simp
qed

lemma trim_idem: "trim (trim x) = trim x"
proof -
  let ?y = "dropWhile isWhiteSpace x"
  have y: "?y = [] \<or> \<not> isWhiteSpace (hd ?y)"
    using hd_dropWhile [of isWhiteSpace x] by blast
  have "trimStart (trim x) = trim x"
    unfolding trim_def trimEnd_def trimStart_def using dropWhile_rev_prefix [of ?y isWhiteSpace] y by blast
  then have "trim (trim x) = trimEnd (trim x)" by (simp add: trim_def [of "trim x"])
  also have "\<dots> = trim x" by (simp add: trim_def trimEnd_def)
  finally show ?thesis .
qed

lemma trim_Nil: "trim [] = []"
  by (simp add: trim_def trimEnd_def trimStart_def)

lemma lookupNonEmptyEnv_fixed:
  "key \<notin> set object_prototype_keys \<Longrightarrow> lookupNonEmptyEnv env key = Inr (env_override env key)"
  by (auto simp: lookupNonEmptyEnv_def env_get_def env_override_def Let_def trim_Nil split: option.splits)

lemma identity_keys_not_inherited:
  "js ''FLOW_COMMAND_SUMMARY'' \<notin> set object_prototype_keys"
  "js ''FLOW_COMMAND_NAME'' \<notin> set object_prototype_keys"
  "js ''OPENAI_API_KEY'' \<notin> set object_prototype_keys"
  by (simp_all add: object_prototype_keys_def js_def)

lemma env_override_trimmed: "env_override env key = Some v \<Longrightarrow> trim v = v \<and> v \<noteq> []"
  by (auto simp: env_override_def trim_idem split: option.splits if_splits)

lemma applyCommandIdentity_eq:
  "applyCommandIdentity (Some cand) locked idn =
     (if trim cand = [] then idn
      else idn\<lparr> commandName := base_of cand,
                commandSummary := (if locked then commandSummary idn else summary_of (base_of cand)) \<rparr>)"
  by (cases idn) (auto simp: applyCommandIdentity_def base_of_def Let_def trim_Nil)

lemma default_name_not_blank: "trim DEFAULT_COMMAND_NAME \<noteq> []"
  by (simp add: DEFAULT_COMMAND_NAME_def, code_simp)

lemma default_summary: "js ''fast is CLI to move faster in software projects'' = summary_of DEFAULT_COMMAND_NAME"
  by (simp add: summary_of_def DEFAULT_COMMAND_NAME_def js_def)

lemma configureCommandIdentity_eq:
  "configureCommandIdentity env invoked initial_identity =
     Inr (\<lparr> nameLocked = (env_override env (js ''FLOW_COMMAND_NAME'') \<noteq> None),
            summaryLocked = (env_override env (js ''FLOW_COMMAND_SUMMARY'') \<noteq> None) \<rparr>,
          \<lparr> commandName = resolved_name env invoked None,
            commandSummary = resolved_summary env invoked None,
            reportedVersion = js ''1.0.0'' \<rparr>)"
proof -
  have none: "config_app_name None = None" "config_app_description None = None"
    by (simp_all add: config_app_name_def config_app_description_def config_app_def)
  show ?thesis
  proof (cases "env_override env (js ''FLOW_COMMAND_NAME'')")
    case None
    then show ?thesis
      by (cases "env_override env (js ''FLOW_COMMAND_SUMMARY'')")
         (auto simp: configureCommandIdentity_def lookupNonEmptyEnv_fixed identity_keys_not_inherited
            applyCommandIdentity_eq resolved_name_def resolved_summary_def none invoked_name_def
            initial_identity_def default_name_not_blank default_summary Let_def split: option.splits)
  next
    case (Some n)
    then have "trim n \<noteq> []" using env_override_trimmed [of env _ n] by simp
    then show ?thesis using Some
      by (cases "env_override env (js ''FLOW_COMMAND_SUMMARY'')")
         (auto simp: configureCommandIdentity_def lookupNonEmptyEnv_fixed identity_keys_not_inherited
            applyCommandIdentity_eq resolved_name_def resolved_summary_def none
            initial_identity_def Let_def)
  qed
qed

subsection \<open>Registration\<close>

lemma registerConfigTasks_eq: "registerConfigTasks config st = registerTaskEntries (config_tasks config) st"
  by (simp add: registerConfigTasks_def config_tasks_def split: option.splits)

lemma registerConfigTask_present:
  "commandRegistry st (fst entry) \<noteq> None \<Longrightarrow> registerConfigTask entry st = st"
  by (cases entry) (simp add: registerConfigTask_def)

lemma registry_registerConfigTask:
  "commandRegistry (registerConfigTask (k, c) st) n =
     (case commandRegistry st n of Some h \<Rightarrow> Some h
      | None \<Rightarrow> if n = k then Some (WithTelemetry k (RunConfiguredTask k c)) else None)"
  by (auto simp: registerConfigTask_def registerCommand_def split: option.splits)

lemma registry_registerTaskEntries:
  "commandRegistry (registerTaskEntries ts st) n =
     (case commandRegistry st n of Some h \<Rightarrow> Some h
      | None \<Rightarrow> map_of (map (\<lambda>(k, c). (k, WithTelemetry k (RunConfiguredTask k c))) ts) n)"
proof (induction ts arbitrary: st)
  case Nil
  then show ?case by (simp split: option.splits)
next
  case (Cons e ts)
  obtain k c where e: "e = (k, c)" by (cases e)
  show ?case
    by (simp add: Cons.IH e registry_registerConfigTask split: option.splits)
qed

lemma registry_registerAll:
  "commandRegistry (registerAll bs st) n =
     (case map_of (map (\<lambda>(name, description, handler). (name, WithTelemetry name handler)) (rev bs)) n of
        Some h \<Rightarrow> Some h | None \<Rightarrow> commandRegistry st n)"
proof (induction bs arbitrary: st)
  case Nil
  then show ?case by simp
next
  case (Cons b bs)
  obtain k d h where b: "b = (k, d, h)" by (cases b)
  show ?case
    by (auto simp: Cons.IH b registerCommand_def map_of_append map_add_def split: option.splits)
qed

lemma distinct_builtin_names: "distinct (map fst builtins)"
  by (simp add: builtins_def js_def)

lemma registry_registerBuiltins:
  "commandRegistry (registerBuiltins initial_cli) n =
     map_of (map (\<lambda>(name, description, handler). (name, WithTelemetry name handler)) builtins) n"
proof -
  let ?f = "\<lambda>(name, description, handler). (name, WithTelemetry name handler)"
  have fst: "map fst (map ?f builtins) = map fst builtins"
    by (simp add: case_prod_unfold comp_def)
  have "distinct (map fst (map ?f builtins))"
    unfolding fst by (rule distinct_builtin_names)
  then have "map_of (map ?f (rev builtins)) = map_of (map ?f builtins)"
    by (simp add: rev_map[symmetric] map_of_inject_set distinct_rev del: map_map)
  then show ?thesis
    by (simp add: registerBuiltins_def registry_registerAll initial_cli_def split: option.splits)
qed

lemma registry_startup:
  "commandRegistry (startup config) n = map_of (registration_attempts config) n"
  by (simp add: startup_def registerConfigTasks_eq registry_registerTaskEntries
      registry_registerBuiltins registration_attempts_def map_of_append map_add_def split: option.splits)

lemma registered_once_registerCommand:
  "registered_once st \<Longrightarrow> commandRegistry st name = None \<Longrightarrow>
   registered_once (registerCommand name description handler st)"
  by (cases "commandCatalog st") (auto simp: registered_once_def registerCommand_def dom_def)

lemma registered_once_registerConfigTask:
  "registered_once st \<Longrightarrow> registered_once (registerConfigTask entry st)"
  by (cases entry) (simp add: registerConfigTask_def registered_once_registerCommand)

lemma registered_once_registerTaskEntries:
  "registered_once st \<Longrightarrow> registered_once (registerTaskEntries ts st)"
  by (induction ts arbitrary: st) (simp_all add: registered_once_registerConfigTask)

lemma registered_once_registerAll:
  "registered_once st \<Longrightarrow> distinct (map fst bs) \<Longrightarrow> \<forall>n \<in> set (map fst bs). commandRegistry st n = None \<Longrightarrow>
   registered_once (registerAll bs st)"
proof (induction bs arbitrary: st)
  case Nil
  then show ?case by simp
next
  case (Cons b bs)
  obtain k d h where b: "b = (k, d, h)" by (cases b)
  have "registered_once (registerCommand k d h st)"
    using Cons.prems by (simp add: b registered_once_registerCommand)
  moreover have "\<forall>n \<in> set (map fst bs). commandRegistry (registerCommand k d h st) n = None"
    using Cons.prems by (auto simp: b registerCommand_def)
  ultimately show ?case using Cons.prems Cons.IH by (simp add: b)
qed

lemma registered_once_startup: "registered_once (startup config)"
proof -
  have "registered_once initial_cli"
    by (simp add: registered_once_def initial_cli_def)
  then have "registered_once (registerBuiltins initial_cli)"
    unfolding registerBuiltins_def
    by (rule registered_once_registerAll) (simp_all add: distinct_builtin_names initial_cli_def)
  then show ?thesis
    by (simp add: startup_def registerConfigTasks_eq registered_once_registerTaskEntries)
qed

lemma builtin_never_overridden:
  assumes "(n, d, h) \<in> set builtins"
  shows "commandRegistry (startup config) n = Some (WithTelemetry n h)"
proof -
  let ?f = "\<lambda>(name, description, handler). (name, WithTelemetry name handler)"
  have fst: "map fst (map ?f builtins) = map fst builtins"
    by (simp add: case_prod_unfold comp_def)
  have "distinct (map fst (map ?f builtins))"
    unfolding fst by (rule distinct_builtin_names)
  moreover have "(n, WithTelemetry n h) \<in> set (map ?f builtins)"
    using assms by force
  ultimately have "map_of (map ?f builtins) n = Some (WithTelemetry n h)"
    by (rule map_of_is_SomeI)
  then show ?thesis
    by (simp add: registry_startup registration_attempts_def map_of_append map_add_def split: option.splits)
qed

lemma registerTaskEntries_idem:
  "(\<forall>k \<in> set (map fst ts). commandRegistry st k \<noteq> None) \<Longrightarrow> registerTaskEntries ts st = st"
  by (induction ts arbitrary: st) (simp_all add: registerConfigTask_present)

lemma startup_idem: "registerConfigTasks config (startup config) = startup config"
proof -
  have "\<forall>k \<in> set (map fst (config_tasks config)). commandRegistry (startup config) k \<noteq> None"
  proof
    fix k assume "k \<in> set (map fst (config_tasks config))"
    then have "k \<in> fst ` set (registration_attempts config)"
      by (force simp: registration_attempts_def)
    then show "commandRegistry (startup config) k \<noteq> None"
      by (simp add: registry_startup map_of_eq_None_iff)
  qed
  then show ?thesis
    by (simp add: registerConfigTasks_eq registerTaskEntries_idem)
qed


text \<open>
  C1. At startup the built-ins are registered first, then the tasks of the configuration.
  The registry ends up holding, for every name, the handler of the first registration attempt
  for that name (first writer wins); every name is pushed onto the catalog at most once and
  the pushed names are the registry's keys; every built-in keeps its own handler whatever the
  configuration defines; a task whose name is already in the registry is skipped, leaving
  registry and catalog unchanged, and a task whose name is absent gets a telemetry-wrapped
  handler and one catalog entry; registering the configuration a second time changes nothing.
\<close>

theorem register_first_writer_wins:
  "(\<forall>n. commandRegistry (startup config) n = map_of (registration_attempts config) n) \<and>
   registered_once (startup config) \<and>
   (\<forall>b \<in> set builtins.
      commandRegistry (startup config) (fst b) = Some (WithTelemetry (fst b) (snd (snd b)))) \<and>
   (\<forall>st entry. commandRegistry st (fst entry) \<noteq> None \<longrightarrow> registerConfigTask entry st = st) \<and>
   (\<forall>st entry. commandRegistry st (fst entry) = None \<longrightarrow>
      commandRegistry (registerConfigTask entry st) (fst entry) =
        Some (WithTelemetry (fst entry) (RunConfiguredTask (fst entry) (snd entry))) \<and>
      map entry_name (commandCatalog (registerConfigTask entry st)) =
        map entry_name (commandCatalog st) @ [fst entry]) \<and>
   registerConfigTasks config (startup config) = startup config"
proof (intro conjI allI ballI impI)
  fix n show "commandRegistry (startup config) n = map_of (registration_attempts config) n"
    by (rule registry_startup)
next
  show "registered_once (startup config)" by (rule registered_once_startup)
next
  fix b assume "b \<in> set builtins"
  then have "(fst b, fst (snd b), snd (snd b)) \<in> set builtins" by simp
  then show "commandRegistry (startup config) (fst b) = Some (WithTelemetry (fst b) (snd (snd b)))"
    by (rule builtin_never_overridden)
next
  fix st :: cli and entry :: "jsstring \<times> OneFTaskConfig"
  assume "commandRegistry st (fst entry) \<noteq> None"
  then show "registerConfigTask entry st = st" by (rule registerConfigTask_present)
next
  fix st :: cli and entry :: "jsstring \<times> OneFTaskConfig"
  assume "commandRegistry st (fst entry) = None"
  then show "commandRegistry (registerConfigTask entry st) (fst entry) =
        Some (WithTelemetry (fst entry) (RunConfiguredTask (fst entry) (snd entry)))"
    by (cases entry) (simp add: registerConfigTask_def registerCommand_def)
next
  fix st :: cli and entry :: "jsstring \<times> OneFTaskConfig"
  assume "commandRegistry st (fst entry) = None"
  then show "map entry_name (commandCatalog (registerConfigTask entry st)) =
        map entry_name (commandCatalog st) @ [fst entry]"
    by (cases entry) (simp add: registerConfigTask_def registerCommand_def)
next
  show "registerConfigTasks config (startup config) = startup config" by (rule startup_idem)
qed

theorem register_first_writer_wins_witness:
  "(js ''commit'', js ''Generate a commit message with GPT-5 nano, create the commit, and push it'',
      RunCommitPushWorkflow (js ''commit'')) \<in> set builtins \<and>
   commandRegistry (startup (Some example_config)) (js ''commit'') =
     Some (WithTelemetry (js ''commit'') (RunCommitPushWorkflow (js ''commit''))) \<and>
   commandRegistry (startup (Some example_config)) (js ''build'') =
     Some (WithTelemetry (js ''build'') (RunConfiguredTask (js ''build'') example_task)) \<and>
   registerConfigTask (js ''commit'', example_task) (startup (Some example_config)) =
     startup (Some example_config) \<and>
   commandRegistry initial_cli (js ''build'') = None \<and>
   map entry_name (commandCatalog (registerConfigTask (js ''build'', example_task) initial_cli)) =
     [js ''help'', js ''build'']"
proof -
  note t = register_first_writer_wins [of "Some example_config"]
  have mem: "(js ''commit'', js ''Generate a commit message with GPT-5 nano, create the commit, and push it'',
      RunCommitPushWorkflow (js ''commit'')) \<in> set builtins"
    by (simp add: builtins_def)
  have c: "commandRegistry (startup (Some example_config)) (js ''commit'') =
     Some (WithTelemetry (js ''commit'') (RunCommitPushWorkflow (js ''commit'')))"
    using t mem by fastforce
  have b: "commandRegistry (startup (Some example_config)) (js ''build'') =
     Some (WithTelemetry (js ''build'') (RunConfiguredTask (js ''build'') example_task))"
    using t by (simp add: registration_attempts_def config_tasks_def example_config_def builtins_def js_def)
  have s: "registerConfigTask (js ''commit'', example_task) (startup (Some example_config)) =
     startup (Some example_config)"
    using t c by simp
  have e: "commandRegistry initial_cli (js ''build'') = None"
    by (simp add: initial_cli_def)
  have m: "map entry_name (commandCatalog (registerConfigTask (js ''build'', example_task) initial_cli)) =
     [js ''help'', js ''build'']"
    using t e by (simp add: initial_cli_def)
  show ?thesis using mem c b s e m by blast
qed

subsection \<open>Diff truncation\<close>





subsection \<open>Secret validation\<close>

lemma lookupNonEmptyEnv_own:
  assumes "env k \<noteq> None \<or> k \<notin> set object_prototype_keys"
  shows "lookupNonEmptyEnv env k =
     (if secret_is_set env k then Inr (Some (trim (the (env k)))) else Inr None)"
  using assms
  by (auto simp: lookupNonEmptyEnv_def env_get_def secret_is_set_def Let_def trim_def trimEnd_def
      trimStart_def split: option.splits)

lemma validate_entries_eq:
  assumes "\<forall>e \<in> set ss. env (fst e) \<noteq> None \<or> fst e \<notin> set object_prototype_keys"
  shows "validate_entries env ss ls ms =
     Inr (ls @ map (secret_line env) ss, ms @ map fst (filter (secret_missing env) ss))"
  using assms
proof (induction ss arbitrary: ls ms)
  case Nil
  then show ?case by simp
next
  case (Cons e ss)
  obtain envName sc where e: "e = (envName, sc)" by (cases e)
  from Cons.prems have own: "env envName \<noteq> None \<or> envName \<notin> set object_prototype_keys"
    by (simp add: e)
  from Cons.prems have rest: "\<forall>e \<in> set ss. env (fst e) \<noteq> None \<or> fst e \<notin> set object_prototype_keys"
    by simp
  note IH = Cons.IH [OF rest]
  have lk: "lookupNonEmptyEnv env envName =
      (if secret_is_set env envName then Inr (Some (trim (the (env envName)))) else Inr None)"
    using own by (rule lookupNonEmptyEnv_own)
  show ?case
  proof (cases "secret_is_set env envName")
    case True
    then show ?thesis
      by (simp add: e IH lk secret_line_def secret_missing_def Let_def)
  next
    case False
    show ?thesis
    proof (cases "secret_required sc")
      case None
      then show ?thesis using False
        by (simp add: e IH lk secret_line_def secret_missing_def Let_def)
    next
      case (Some r)
      then show ?thesis using False
        by (cases r; cases "secret_default sc")
           (simp_all add: e IH lk secret_line_def secret_missing_def Let_def)
    qed
  qed
qed

lemma js_simps: "js ''A'' \<noteq> js ''B''" "js ''B'' \<noteq> js ''A''"
  by (simp_all add: js_def)

text \<open>
  When no declared secret has the name of a property of \<open>Object.prototype\<close> (or every such
  name is an environment variable), \<open>validateSecrets\<close> records every declared secret on its own
  line, in order: set when its environment variable has a non-empty trimmed value; otherwise
  a default-substitution warning when it is required and has a default, a missing line (and
  an entry of the failure list) when it is required and has no default, and a line saying it
  is optional otherwise. \<open>runSetup\<close> throws one error naming all the missing secrets whenever
  the failure list is non-empty, after printing the lines and before running any setup
  command, and goes on to the setup task whenever the list is empty.
\<close>

lemma validateSecrets_records_each_secret:
  "((\<forall>e \<in> set ss. env (fst e) \<noteq> None \<or> fst e \<notin> set object_prototype_keys) \<and>
    secrets config = Some ss \<and> ss \<noteq> [] \<longrightarrow>
      validateSecrets env config =
        Inr (map (secret_line env) ss, map fst (filter (secret_missing env) ss))) \<and>
   (validateSecrets env config = Inr (ls, ms) \<and> ms \<noteq> [] \<longrightarrow>
      runSetup sh env (Inr (Some config)) =
        (Inl (Error (js ''Missing required secrets: '' @ join (js '', '') ms)), map Stdout ls)) \<and>
   (validateSecrets env config = Inr (ls, []) \<longrightarrow>
      runSetup sh env (Inr (Some config)) =
        (case setup_task config of
           None \<Rightarrow>
             (Inr (), map Stdout ls @ [Stdout (js ''No setup task defined; environment looks good.'')])
         | Some t \<Rightarrow>
             (fst (runConfiguredTask sh (Inr (Some config)) (js ''setup'') (Some t)),
              map Stdout ls @ [Stdout (js ''Running setup task commands...'')] @
              snd (runConfiguredTask sh (Inr (Some config)) (js ''setup'') (Some t)))))"
proof (intro conjI impI)
  assume "(\<forall>e \<in> set ss. env (fst e) \<noteq> None \<or> fst e \<notin> set object_prototype_keys) \<and>
    secrets config = Some ss \<and> ss \<noteq> []"
  then show "validateSecrets env config =
        Inr (map (secret_line env) ss, map fst (filter (secret_missing env) ss))"
    by (simp add: validateSecrets_def validate_entries_eq)
next
  assume "validateSecrets env config = Inr (ls, ms) \<and> ms \<noteq> []"
  then show "runSetup sh env (Inr (Some config)) =
        (Inl (Error (js ''Missing required secrets: '' @ join (js '', '') ms)), map Stdout ls)"
    by (simp add: runSetup_def missing_secrets_message_def)
next
  assume "validateSecrets env config = Inr (ls, [])"
  then show "runSetup sh env (Inr (Some config)) =
        (case setup_task config of
           None \<Rightarrow>
             (Inr (), map Stdout ls @ [Stdout (js ''No setup task defined; environment looks good.'')])
         | Some t \<Rightarrow>
             (fst (runConfiguredTask sh (Inr (Some config)) (js ''setup'') (Some t)),
              map Stdout ls @ [Stdout (js ''Running setup task commands...'')] @
              snd (runConfiguredTask sh (Inr (Some config)) (js ''setup'') (Some t))))"
    by (simp add: runSetup_def setup_task_def split: prod.splits option.splits)
qed

text \<open>The examples of the spec: the secrets \<open>A\<close> (required) and \<open>B\<close> (optional).\<close>

lemma validateSecrets_examples:
  "validateSecrets [js ''A'' \<mapsto> js ''value''] (secrets_config [secret_A True None, secret_B]) =
     Inr ([line_set (js ''A'') (js ''A''), line_optional (js ''B'') (js ''B'')], []) \<and>
   runSetup no_shell [js ''A'' \<mapsto> js ''value''] (Inr (Some (secrets_config [secret_A True None, secret_B]))) =
     (Inr (), [Stdout (line_set (js ''A'') (js ''A'')), Stdout (line_optional (js ''B'') (js ''B'')),
               Stdout (js ''No setup task defined; environment looks good.'')]) \<and>
   validateSecrets Map.empty (secrets_config [secret_A True None, secret_B]) =
     Inr ([line_required (js ''A'') (js ''A'') None, line_optional (js ''B'') (js ''B'')], [js ''A'']) \<and>
   runSetup no_shell Map.empty (Inr (Some (secrets_config [secret_A True None, secret_B]))) =
     (Inl (Error (js ''Missing required secrets: A'')),
      [Stdout (line_required (js ''A'') (js ''A'') None), Stdout (line_optional (js ''B'') (js ''B''))]) \<and>
   validateSecrets Map.empty (secrets_config [secret_A True (Some (js ''dev'')), secret_B]) =
     Inr ([line_default (js ''A'') (js ''A'') (js ''dev''), line_optional (js ''B'') (js ''B'')], [])"
proof -
  let ?env = "[js ''A'' \<mapsto> js ''value'']"
  let ?ss = "[secret_A True None, secret_B]"
  let ?ds = "[secret_A True (Some (js ''dev'')), secret_B]"
  have set: "secret_is_set ?env (js ''A'')" "\<not> secret_is_set ?env (js ''B'')"
    "\<not> secret_is_set Map.empty (js ''A'')" "\<not> secret_is_set Map.empty (js ''B'')"
    by (simp_all add: secret_is_set_def js_simps,
        simp add: js_def trim_def trimEnd_def trimStart_def isWhiteSpace_def)
  have own: "js ''A'' \<notin> set object_prototype_keys" "js ''B'' \<notin> set object_prototype_keys"
    by (simp_all add: object_prototype_keys_def js_def)
  have g: "validateSecrets env (secrets_config ss) =
      Inr (map (secret_line env) ss, map fst (filter (secret_missing env) ss))"
    if "\<forall>e \<in> set ss. fst e \<notin> set object_prototype_keys" and "ss \<noteq> []" for env ss
    using that validateSecrets_records_each_secret [of ss env "secrets_config ss"]
    by (simp add: secrets_config_def)
  have v1: "validateSecrets ?env (secrets_config ?ss) =
      Inr ([line_set (js ''A'') (js ''A''), line_optional (js ''B'') (js ''B'')], [])"
    using own set by (subst g) (simp_all add: secret_A_def secret_B_def secret_line_def secret_missing_def)
  have v2: "validateSecrets Map.empty (secrets_config ?ss) =
      Inr ([line_required (js ''A'') (js ''A'') None, line_optional (js ''B'') (js ''B'')], [js ''A''])"
    using own set by (subst g) (simp_all add: secret_A_def secret_B_def secret_line_def secret_missing_def)
  have v3: "validateSecrets Map.empty (secrets_config ?ds) =
      Inr ([line_default (js ''A'') (js ''A'') (js ''dev''), line_optional (js ''B'') (js ''B'')], [])"
    using own set by (subst g) (simp_all add: secret_A_def secret_B_def secret_line_def secret_missing_def)
  have st: "setup_task (secrets_config ss) = None" for ss
    by (simp add: setup_task_def secrets_config_def)
  have r1: "runSetup no_shell ?env (Inr (Some (secrets_config ?ss))) =
     (Inr (), [Stdout (line_set (js ''A'') (js ''A'')), Stdout (line_optional (js ''B'') (js ''B'')),
               Stdout (js ''No setup task defined; environment looks good.'')])"
    using validateSecrets_records_each_secret [THEN conjunct2, THEN conjunct2, THEN mp, OF v1, of no_shell]
    by (simp add: st)
  have "runSetup no_shell Map.empty (Inr (Some (secrets_config ?ss))) =
     (Inl (Error (js ''Missing required secrets: '' @ join (js '', '') [js ''A''])),
      map Stdout [line_required (js ''A'') (js ''A'') None, line_optional (js ''B'') (js ''B'')])"
    by (rule validateSecrets_records_each_secret [THEN conjunct2, THEN conjunct1, THEN mp])
       (simp add: v2)
  then have r2: "runSetup no_shell Map.empty (Inr (Some (secrets_config ?ss))) =
     (Inl (Error (js ''Missing required secrets: A'')),
      [Stdout (line_required (js ''A'') (js ''A'') None), Stdout (line_optional (js ''B'') (js ''B''))])"
    by (simp add: js_def)
  from v1 r1 v2 r2 v3 show ?thesis by (intro conjI)
qed

text \<open>
  C6. A declared secret named \<open>constructor\<close>, optional and with no environment variable of
  that name, is not recorded as not set: \<open>process.env["constructor"]\<close> is the function
  inherited from \<open>Object.prototype\<close>, \<open>lookupNonEmptyEnv\<close> calls \<open>trim\<close> on it, and the
  \<open>TypeError\<close> ends \<open>validateSecrets\<close> and \<open>runSetup\<close> with no line recorded or printed, the
  secret \<open>B\<close> declared after it included.
\<close>

theorem secret_named_constructor_throws:
  "validateSecrets Map.empty (secrets_config [secret_constructor, secret_B]) =
     Inl (Error (js ''raw.trim is not a function'')) \<and>
   runSetup no_shell Map.empty (Inr (Some (secrets_config [secret_constructor, secret_B]))) =
     (Inl (Error (js ''raw.trim is not a function'')), [])"
proof -
  have k: "js ''constructor'' \<in> set object_prototype_keys"
    by (simp add: object_prototype_keys_def)
  have l: "lookupNonEmptyEnv Map.empty (js ''constructor'') = Inl trim_type_error"
    using k by (simp add: lookupNonEmptyEnv_def env_get_def)
  have v: "validateSecrets Map.empty (secrets_config [secret_constructor, secret_B]) =
      Inl (Error (js ''raw.trim is not a function''))"
    by (simp add: validateSecrets_def secrets_config_def secret_constructor_def l Let_def
        trim_type_error_def)
  then show ?thesis by (simp add: runSetup_def)
qed

subsection \<open>Configured tasks\<close>

lemma executeTaskCommand_ok:
  "sh k c = Closed (Some 0) \<Longrightarrow> executeTaskCommand sh k c X = (Inr (), [bash_lc c])"
  by (simp add: executeTaskCommand_def bash_lc_def)

lemma executeTaskCommand_fail:
  "sh k c = Closed code \<Longrightarrow> code \<noteq> Some 0 \<Longrightarrow>
   executeTaskCommand sh k c X = (Inl (Error (task_exit_message X code)), [bash_lc c])"
  by (simp add: executeTaskCommand_def bash_lc_def)

lemma runCommands_all_ok:
  "\<forall>j < length cs. sh (k + j) (cs ! j) = Closed (Some 0) \<Longrightarrow>
   runCommands sh X k cs = (Inr (), map bash_lc cs)"
proof (induction cs arbitrary: k)
  case Nil
  then show ?case by simp
next
  case (Cons c cs)
  from Cons.prems have c: "sh k c = Closed (Some 0)" by force
  have "\<forall>j < length cs. sh (Suc k + j) (cs ! j) = Closed (Some 0)"
  proof (intro allI impI)
    fix j assume "j < length cs"
    then have "sh (k + Suc j) ((c # cs) ! Suc j) = Closed (Some 0)"
      using Cons.prems by (metis Suc_less_eq length_Cons)
    then show "sh (Suc k + j) (cs ! j) = Closed (Some 0)" by simp
  qed
  then have "runCommands sh X (Suc k) cs = (Inr (), map bash_lc cs)" by (rule Cons.IH)
  then show ?case using c by (simp add: executeTaskCommand_ok)
qed

lemma runCommands_first_failure:
  "i < length cs \<Longrightarrow> \<forall>j < i. sh (k + j) (cs ! j) = Closed (Some 0) \<Longrightarrow>
   sh (k + i) (cs ! i) = Closed code \<Longrightarrow> code \<noteq> Some 0 \<Longrightarrow>
   runCommands sh X k cs = (Inl (Error (task_exit_message X code)), map bash_lc (take (Suc i) cs))"
proof (induction cs arbitrary: k i)
  case Nil
  then show ?case by simp
next
  case (Cons c cs)
  show ?case
  proof (cases i)
    case 0
    then have "sh k c = Closed code" using Cons.prems by simp
    then show ?thesis using Cons.prems 0 by (simp add: executeTaskCommand_fail)
  next
    case (Suc i')
    have c: "sh k c = Closed (Some 0)" using Cons.prems(2) Suc by force
    have "\<forall>j < i'. sh (Suc k + j) (cs ! j) = Closed (Some 0)"
    proof (intro allI impI)
      fix j assume "j < i'"
      then have "sh (k + Suc j) ((c # cs) ! Suc j) = Closed (Some 0)"
        using Cons.prems(2) Suc by (metis Suc_less_eq)
      then show "sh (Suc k + j) (cs ! j) = Closed (Some 0)" by simp
    qed
    moreover have "i' < length cs" using Cons.prems(1) Suc by simp
    moreover have "sh (Suc k + i') (cs ! i') = Closed code" using Cons.prems(3) Suc by simp
    ultimately have "runCommands sh X (Suc k) cs =
        (Inl (Error (task_exit_message X code)), map bash_lc (take (Suc i') cs))"
      using Cons.prems(4) Cons.IH [of i' "Suc k"] by blast
    then show ?thesis using c by (simp add: executeTaskCommand_ok Suc)
  qed
qed

lemma map_of_task_handlers:
  "map_of (map (\<lambda>(taskName, taskConfig). (taskName, WithTelemetry taskName (RunConfiguredTask taskName taskConfig))) ts) X =
     map_option (\<lambda>c. WithTelemetry X (RunConfiguredTask X c)) (map_of ts X)"
  by (induction ts) auto

lemma configured_task_registered:
  assumes "X \<notin> fst ` set builtins" and "map_of (config_tasks config) X = Some cfg"
  shows "commandRegistry (startup config) X = Some (WithTelemetry X (RunConfiguredTask X cfg))"
proof -
  have "map_of (map (\<lambda>(name, description, handler). (name, WithTelemetry name handler)) builtins) X = None"
    using assms(1) by (force simp: map_of_eq_None_iff)
  then show ?thesis
    using assms(2)
    by (simp add: registry_startup registration_attempts_def map_of_append map_add_def
        map_of_task_handlers split: option.splits)
qed

lemma handleTopLevel_single_False: "\<not> fst (handleTopLevel [X]) \<Longrightarrow> handleTopLevel [X] = (False, []) \<and> X \<noteq> []"
  by (auto simp: handleTopLevel_def split: if_splits)

lemma single_arg_no_help_flag:
  "\<not> fst (handleTopLevel [X]) \<Longrightarrow> js ''--help'' \<notin> set [X] \<and> js ''-h'' \<notin> set [X]"
  by (auto simp: handleTopLevel_def split: if_splits)

lemma dispatch_single_registered:
  assumes "\<not> fst (handleTopLevel [X])" and "commandRegistry st X = Some (WithTelemetry X h)"
  shows "dispatch run st [X] =
     (case run h of
        (Inr u, evs) \<Rightarrow>
          [Track (js ''info'') (js ''command_start'') X] @ evs @
          [Track (js ''info'') (js ''command_success'') X]
      | (Inl (Error m), evs) \<Rightarrow>
          [Track (js ''info'') (js ''command_start'') X] @ evs @
          [Track (js ''error'') (js ''command_failure'') X, Stderr m, Exit 1])"
proof -
  from assms(1) have h: "handleTopLevel [X] = (False, [])" "X \<noteq> []"
    using handleTopLevel_single_False by blast+
  from assms(1) have nf: "js ''--help'' \<noteq> X" "js ''-h'' \<noteq> X"
    using single_arg_no_help_flag [of X] by auto
  show ?thesis
    by (cases "run h")
       (auto simp: dispatch_def h nf assms(2) executeCommandWithTelemetry_def
          split: sum.splits error.splits prod.splits)
qed

lemma show_int_values: "show_int 1 = js ''1''" "show_int (- 1) = js ''-1''"
  by (simp_all add: show_int_def js_def)

lemma handleTopLevel_single:
  "\<not> fst (handleTopLevel [X]) \<longleftrightarrow> X \<noteq> [] \<and> \<not> top_level_token X"
  by (auto simp: handleTopLevel_def top_level_token_def)

text \<open>
  C3 (as amended). A configured task with a non-empty command list runs its commands through
  \<open>bash -lc\<close> in declaration order. When every command closes with code 0 the task succeeds
  having run all of them. When the command at position \<open>i\<close> is the first that closes with a
  non-zero code or with no code at all (killed by a signal), the task throws an error whose
  message names the task, and exactly the first \<open>i + 1\<close> commands have been run: none after
  the failing one. A task whose name is not a built-in's is registered with exactly this
  handler. Invoking the name runs that handler provided \<open>handleTopLevel\<close> does not answer the
  name itself, that is, provided the name is not empty and is none of \<open>--help\<close>, \<open>-h\<close>, \<open>h\<close>,
  \<open>--version\<close> and \<open>help\<close>.
\<close>

theorem configured_task_runs_in_order_until_failure:
  "cmds cfg = Some cs \<and> cs \<noteq> [] \<longrightarrow>
     ((\<forall>j < length cs. sh j (cs ! j) = Closed (Some 0)) \<longrightarrow>
        runConfiguredTask sh loaded X (Some cfg) = (Inr (), map bash_lc cs)) \<and>
     (\<forall>i code. i < length cs \<and> (\<forall>j < i. sh j (cs ! j) = Closed (Some 0)) \<and>
         sh i (cs ! i) = Closed code \<and> code \<noteq> Some 0 \<longrightarrow>
        runConfiguredTask sh loaded X (Some cfg) =
          (Inl (Error (js ''Task '' @ [SQUOTE] @ X @ [SQUOTE] @ js '' command exited with code '' @
                       show_int (case code of None \<Rightarrow> - 1 | Some c \<Rightarrow> c))),
           map bash_lc (take (Suc i) cs))) \<and>
     (X \<notin> fst ` set builtins \<and> map_of (config_tasks config) X = Some cfg \<longrightarrow>
        commandRegistry (startup config) X = Some (WithTelemetry X (RunConfiguredTask X cfg)) \<and>
        run_handler w idn (RunConfiguredTask X cfg) =
          runConfiguredTask (task_shell w) (loadOneFConfig w) X (Some cfg) \<and>
        (\<not> fst (handleTopLevel [X]) \<longrightarrow>
           dispatch (run_handler w idn) (startup config) [X] =
             (case runConfiguredTask (task_shell w) (loadOneFConfig w) X (Some cfg) of
                (Inr u, evs) \<Rightarrow>
                  [Track (js ''info'') (js ''command_start'') X] @ evs @
                  [Track (js ''info'') (js ''command_success'') X]
              | (Inl (Error m), evs) \<Rightarrow>
                  [Track (js ''info'') (js ''command_start'') X] @ evs @
                  [Track (js ''error'') (js ''command_failure'') X, Stderr m, Exit 1]))) \<and>
     (\<not> fst (handleTopLevel [X])) = (X \<noteq> [] \<and> \<not> top_level_token X)"
proof (intro impI conjI allI)
  show "(\<not> fst (handleTopLevel [X])) = (X \<noteq> [] \<and> \<not> top_level_token X)"
    by (rule handleTopLevel_single)
next
  assume a: "cmds cfg = Some cs \<and> cs \<noteq> []"
  assume "\<forall>j < length cs. sh j (cs ! j) = Closed (Some 0)"
  then have "runCommands sh X 0 cs = (Inr (), map bash_lc cs)"
    using runCommands_all_ok [of cs sh 0 X] by simp
  then show "runConfiguredTask sh loaded X (Some cfg) = (Inr (), map bash_lc cs)"
    using a by (simp add: runConfiguredTask_def)
next
  fix i code
  assume a: "cmds cfg = Some cs \<and> cs \<noteq> []"
  assume b: "i < length cs \<and> (\<forall>j < i. sh j (cs ! j) = Closed (Some 0)) \<and>
         sh i (cs ! i) = Closed code \<and> code \<noteq> Some 0"
  then have "runCommands sh X 0 cs =
      (Inl (Error (task_exit_message X code)), map bash_lc (take (Suc i) cs))"
    using runCommands_first_failure [of i cs sh 0 code X] by simp
  then show "runConfiguredTask sh loaded X (Some cfg) =
          (Inl (Error (js ''Task '' @ [SQUOTE] @ X @ [SQUOTE] @ js '' command exited with code '' @
                       show_int (case code of None \<Rightarrow> - 1 | Some c \<Rightarrow> c))),
           map bash_lc (take (Suc i) cs))"
    using a by (simp add: runConfiguredTask_def task_exit_message_def)
next
  assume "X \<notin> fst ` set builtins \<and> map_of (config_tasks config) X = Some cfg"
  then show "commandRegistry (startup config) X = Some (WithTelemetry X (RunConfiguredTask X cfg))"
    by (simp add: configured_task_registered)
next
  show "run_handler w idn (RunConfiguredTask X cfg) =
          runConfiguredTask (task_shell w) (loadOneFConfig w) X (Some cfg)"
    by (simp add: run_handler_def)
next
  assume "X \<notin> fst ` set builtins \<and> map_of (config_tasks config) X = Some cfg"
  then have r: "commandRegistry (startup config) X = Some (WithTelemetry X (RunConfiguredTask X cfg))"
    by (simp add: configured_task_registered)
  assume "\<not> fst (handleTopLevel [X])"
  then show "dispatch (run_handler w idn) (startup config) [X] =
             (case runConfiguredTask (task_shell w) (loadOneFConfig w) X (Some cfg) of
                (Inr u, evs) \<Rightarrow>
                  [Track (js ''info'') (js ''command_start'') X] @ evs @
                  [Track (js ''info'') (js ''command_success'') X]
              | (Inl (Error m), evs) \<Rightarrow>
                  [Track (js ''info'') (js ''command_start'') X] @ evs @
                  [Track (js ''error'') (js ''command_failure'') X, Stderr m, Exit 1])"
    using r by (simp add: dispatch_single_registered run_handler_def)
qed

theorem configured_task_runs_in_order_until_failure_witness:
  "runConfiguredTask failing_shell (Inr None) (js ''build'') (Some three_step_task) =
     (Inl (Error (js ''Task '' @ [SQUOTE] @ js ''build'' @ [SQUOTE] @ js '' command exited with code 1'')),
      [bash_lc (js ''true''), bash_lc (js ''false'')]) \<and>
   runConfiguredTask killed_shell (Inr None) (js ''build'') (Some three_step_task) =
     (Inl (Error (js ''Task '' @ [SQUOTE] @ js ''build'' @ [SQUOTE] @ js '' command exited with code -1'')),
      [bash_lc (js ''true''), bash_lc (js ''false'')]) \<and>
   runConfiguredTask no_shell (Inr None) (js ''build'') (Some three_step_task) =
     (Inr (), [bash_lc (js ''true''), bash_lc (js ''false''), bash_lc (js ''echo'')]) \<and>
   commandRegistry (startup (Some three_step_config)) (js ''build'') =
     Some (WithTelemetry (js ''build'') (RunConfiguredTask (js ''build'') three_step_task)) \<and>
   dispatch (run_handler failing_world initial_identity) (startup (Some three_step_config)) [js ''build''] =
     [Track (js ''info'') (js ''command_start'') (js ''build''),
      bash_lc (js ''true''), bash_lc (js ''false''),
      Track (js ''error'') (js ''command_failure'') (js ''build''),
      Stderr (js ''Task '' @ [SQUOTE] @ js ''build'' @ [SQUOTE] @ js '' command exited with code 1''),
      Exit 1]"
proof -
  let ?cs = "[js ''true'', js ''false'', js ''echo'']"
  let ?X = "js ''build''"
  have cm: "cmds three_step_task = Some ?cs \<and> ?cs \<noteq> []"
    by (simp add: three_step_task_def)
  have f: "(1::nat) < length ?cs \<and> (\<forall>j < (1::nat). failing_shell j (?cs ! j) = Closed (Some 0)) \<and>
      failing_shell 1 (?cs ! 1) = Closed (Some 1) \<and> Some (1::int) \<noteq> Some 0"
    by (simp add: failing_shell_def js_def)
  have k: "(1::nat) < length ?cs \<and> (\<forall>j < (1::nat). killed_shell j (?cs ! j) = Closed (Some 0)) \<and>
      killed_shell 1 (?cs ! 1) = Closed None \<and> (None :: int option) \<noteq> Some 0"
    by (simp add: killed_shell_def)
  have n: "\<forall>j < length ?cs. no_shell j (?cs ! j) = Closed (Some 0)"
    by (simp add: no_shell_def)
  have b: "?X \<notin> fst ` set builtins \<and>
      map_of (config_tasks (Some three_step_config)) ?X = Some three_step_task"
    by (simp add: builtins_def config_tasks_def three_step_config_def js_def)
  have "runConfiguredTask failing_shell (Inr None) ?X (Some three_step_task) =
      (Inl (Error (js ''Task '' @ [SQUOTE] @ ?X @ [SQUOTE] @ js '' command exited with code '' @
                   show_int (case Some 1 of None \<Rightarrow> - 1 | Some c \<Rightarrow> c))),
       map bash_lc (take (Suc 1) ?cs))"
    using configured_task_runs_in_order_until_failure
      [of three_step_task ?cs failing_shell "Inr None" ?X] cm f
    by blast
  then have 1: "runConfiguredTask failing_shell (Inr None) ?X (Some three_step_task) =
     (Inl (Error (js ''Task '' @ [SQUOTE] @ ?X @ [SQUOTE] @ js '' command exited with code 1'')),
      [bash_lc (js ''true''), bash_lc (js ''false'')])"
    by (simp add: show_int_values js_def)
  have "runConfiguredTask killed_shell (Inr None) ?X (Some three_step_task) =
      (Inl (Error (js ''Task '' @ [SQUOTE] @ ?X @ [SQUOTE] @ js '' command exited with code '' @
                   show_int (case None of None \<Rightarrow> - 1 | Some c \<Rightarrow> c))),
       map bash_lc (take (Suc 1) ?cs))"
    using configured_task_runs_in_order_until_failure
      [of three_step_task ?cs killed_shell "Inr None" ?X] cm k
    by blast
  then have 2: "runConfiguredTask killed_shell (Inr None) ?X (Some three_step_task) =
     (Inl (Error (js ''Task '' @ [SQUOTE] @ ?X @ [SQUOTE] @ js '' command exited with code -1'')),
      [bash_lc (js ''true''), bash_lc (js ''false'')])"
    by (simp add: show_int_values js_def)
  have "runConfiguredTask no_shell (Inr None) ?X (Some three_step_task) = (Inr (), map bash_lc ?cs)"
    using configured_task_runs_in_order_until_failure
      [of three_step_task ?cs no_shell "Inr None" ?X] cm n
    by blast
  then have 3: "runConfiguredTask no_shell (Inr None) ?X (Some three_step_task) =
     (Inr (), [bash_lc (js ''true''), bash_lc (js ''false''), bash_lc (js ''echo'')])"
    by simp
  have 4: "commandRegistry (startup (Some three_step_config)) ?X =
     Some (WithTelemetry ?X (RunConfiguredTask ?X three_step_task))"
    using configured_task_runs_in_order_until_failure
      [of three_step_task ?cs no_shell "Inr None" ?X "Some three_step_config"] cm b
    by blast
  have h: "\<not> fst (handleTopLevel [?X])"
    by (simp add: handleTopLevel_def js_def)
  have fw: "task_shell failing_world = failing_shell" "loadOneFConfig failing_world = Inr None"
    by (simp_all add: failing_world_def quiet_world_def)
  have "dispatch (run_handler failing_world initial_identity) (startup (Some three_step_config)) [?X] =
      (case runConfiguredTask (task_shell failing_world) (loadOneFConfig failing_world) ?X
              (Some three_step_task) of
         (Inr u, evs) \<Rightarrow>
           [Track (js ''info'') (js ''command_start'') ?X] @ evs @
           [Track (js ''info'') (js ''command_success'') ?X]
       | (Inl (Error m), evs) \<Rightarrow>
           [Track (js ''info'') (js ''command_start'') ?X] @ evs @
           [Track (js ''error'') (js ''command_failure'') ?X, Stderr m, Exit 1])"
    using configured_task_runs_in_order_until_failure
      [of three_step_task ?cs no_shell "Inr None" ?X "Some three_step_config" failing_world
        initial_identity] cm b h
    by blast
  then have 5: "dispatch (run_handler failing_world initial_identity) (startup (Some three_step_config)) [?X] =
     [Track (js ''info'') (js ''command_start'') ?X,
      bash_lc (js ''true''), bash_lc (js ''false''),
      Track (js ''error'') (js ''command_failure'') ?X,
      Stderr (js ''Task '' @ [SQUOTE] @ ?X @ [SQUOTE] @ js '' command exited with code 1''),
      Exit 1]"
    unfolding fw 1 by simp
  from 1 2 3 4 5 show ?thesis by (intro conjI)
qed


text \<open>
  C3 as stated fails for a task whose name \<open>handleTopLevel\<close> answers itself: the task \<open>h\<close>, with
  three commands, is not a built-in and is registered, but invoking \<open>h\<close> prints the root help
  and runs none of its commands.
\<close>

theorem task_named_h_is_never_run_counterexample:
  "js ''h'' \<notin> set (map fst builtins) \<and>
   cmds three_step_task = Some [js ''true'', js ''false'', js ''echo''] \<and>
   commandRegistry (startup (Some h_task_config)) (js ''h'') =
     Some (WithTelemetry (js ''h'') (RunConfiguredTask (js ''h'') three_step_task)) \<and>
   main (quiet_world\<lparr> loadOneFConfig := Inr (Some h_task_config) \<rparr>) [js ''h''] =
     [Track (js ''info'') (js ''cli_invocation'') [], PrintRootHelp]"
proof -
  have b: "js ''h'' \<notin> fst ` set builtins"
    "map_of (config_tasks (Some h_task_config)) (js ''h'') = Some three_step_task"
    by (simp_all add: builtins_def config_tasks_def h_task_config_def js_def)
  then have r: "commandRegistry (startup (Some h_task_config)) (js ''h'') =
     Some (WithTelemetry (js ''h'') (RunConfiguredTask (js ''h'') three_step_task))"
    by (rule configured_task_registered)
  have h: "handleTopLevel [js ''h''] = (True, [PrintRootHelp])"
    by (simp add: handleTopLevel_def js_def)
  have m: "main (quiet_world\<lparr> loadOneFConfig := Inr (Some h_task_config) \<rparr>) [js ''h''] =
     [Track (js ''info'') (js ''cli_invocation'') [], PrintRootHelp]"
    by (simp add: main_def configureCommandIdentity_eq main_args_def dispatch_def h Let_def)
  have c: "cmds three_step_task = Some [js ''true'', js ''false'', js ''echo'']"
    by (simp add: three_step_task_def)
  from b(1) c r m show ?thesis by simp
qed



subsection \<open>Dispatch\<close>

lemma js_distinct_tokens:
  "js ''--help'' \<noteq> []" "js ''-h'' \<noteq> []" "js ''h'' \<noteq> []" "js ''--version'' \<noteq> []" "js ''help'' \<noteq> []"
  "js ''--version'' \<noteq> js ''--help''" "js ''--version'' \<noteq> js ''-h''" "js ''--version'' \<noteq> js ''h''"
  "js ''help'' \<noteq> js ''--help''" "js ''help'' \<noteq> js ''-h''" "js ''help'' \<noteq> js ''h''"
  "js ''help'' \<noteq> js ''--version''"
  by (simp_all add: js_def)

lemma handleTopLevel_help_flag:
  "c = js ''--help'' \<or> c = js ''-h'' \<Longrightarrow> handleTopLevel (c # rest) = (True, [PrintRootHelp])"
  by (auto simp: handleTopLevel_def js_def)

lemma handleTopLevel_version:
  "handleTopLevel (js ''--version'' # rest) = (True, [PrintReportedVersion])"
  by (simp add: handleTopLevel_def js_def)

lemma handleTopLevel_help:
  "handleTopLevel (js ''help'' # rest) = (True, help_output rest)"
  by (simp add: handleTopLevel_def help_output_def js_distinct_tokens split: list.splits)

lemma dispatch_handled:
  "fst (handleTopLevel args) \<Longrightarrow> dispatch run st args = snd (handleTopLevel args)"
  by (cases "handleTopLevel args") (simp add: dispatch_def)

lemma handleTopLevel_False_out: "\<not> fst (handleTopLevel args) \<Longrightarrow> handleTopLevel args = (False, [])"
  by (auto simp: handleTopLevel_def split: list.splits if_splits)

lemma handleTopLevel_trailing_flag:
  assumes "\<not> top_level_token c" and "rest \<noteq> []" and "last rest = js ''--help'' \<or> last rest = js ''-h''"
  shows "handleTopLevel (c # rest) =
     (True, if printCommandHelp c then [PrintCommandHelp c] else [PrintRootHelp])"
proof (cases "c = []")
  case True
  then have "\<not> printCommandHelp c" by (simp add: printCommandHelp_def js_def)
  then show ?thesis using True by (simp add: handleTopLevel_def)
next
  case False
  then show ?thesis using assms
    by (auto simp: handleTopLevel_def top_level_token_def)
qed

lemma dispatch_command_help:
  assumes reg: "commandRegistry st c = Some h"
    and flag: "js ''--help'' \<in> set rest \<or> js ''-h'' \<in> set rest"
    and tok: "\<not> top_level_token c"
  shows "dispatch run st (c # rest) = (if printCommandHelp c then [PrintCommandHelp c] else [PrintRootHelp])"
proof (cases "fst (handleTopLevel (c # rest))")
  case True
  from flag have ne: "rest \<noteq> []" by auto
  show ?thesis
  proof (cases "c = []")
    case True
    then have "\<not> printCommandHelp c" by (simp add: printCommandHelp_def js_def)
    then show ?thesis using True by (simp add: dispatch_def handleTopLevel_def)
  next
    case False
    from True False tok ne have "last rest = js ''--help'' \<or> last rest = js ''-h''"
      by (auto simp: handleTopLevel_def top_level_token_def split: if_splits)
    then show ?thesis
      using handleTopLevel_trailing_flag [OF tok ne] by (simp add: dispatch_def)
  qed
next
  case False
  then have h: "handleTopLevel (c # rest) = (False, [])" by (rule handleTopLevel_False_out)
  from False have "c \<noteq> []" by (auto simp: handleTopLevel_def)
  then show ?thesis using reg flag by (auto simp: dispatch_def h)
qed

text \<open>
  C2 (as amended). \<open>--help\<close>, \<open>-h\<close>, \<open>--version\<close> and \<open>help [topic]\<close> as first token are answered
  by \<open>handleTopLevel\<close>, whatever the registry holds and without running any handler: the output
  is the root help, the version, or the help of the topic. When the first token is a
  registered command (and not itself one of the tokens \<open>handleTopLevel\<close> answers) and a help
  flag occurs among the remaining tokens, no handler runs and \<open>dispatch\<close> returns after
  printing that command's help if \<open>printCommandHelp\<close> knows the command, and the root help
  otherwise.
\<close>

theorem top_level_flags_short_circuit_and_help_flag_skips_handler:
  "(c = js ''--help'' \<or> c = js ''-h'' \<longrightarrow>
      fst (handleTopLevel (c # rest)) \<and> dispatch run st (c # rest) = [PrintRootHelp]) \<and>
   (c = js ''--version'' \<longrightarrow>
      fst (handleTopLevel (c # rest)) \<and> dispatch run st (c # rest) = [PrintReportedVersion]) \<and>
   (c = js ''help'' \<longrightarrow>
      fst (handleTopLevel (c # rest)) \<and> dispatch run st (c # rest) = help_output rest) \<and>
   (commandRegistry st c \<noteq> None \<and> (js ''--help'' \<in> set rest \<or> js ''-h'' \<in> set rest) \<and>
    \<not> top_level_token c \<longrightarrow>
      dispatch run st (c # rest) =
        (if printCommandHelp c then [PrintCommandHelp c] else [PrintRootHelp]))"
proof (intro conjI impI)
  assume a: "c = js ''--help'' \<or> c = js ''-h''"
  then show "fst (handleTopLevel (c # rest))" by (simp add: handleTopLevel_help_flag)
  from a show "dispatch run st (c # rest) = [PrintRootHelp]"
    by (simp add: dispatch_handled handleTopLevel_help_flag)
next
  assume a: "c = js ''--version''"
  then show "fst (handleTopLevel (c # rest))" by (simp add: handleTopLevel_version)
  from a show "dispatch run st (c # rest) = [PrintReportedVersion]"
    by (simp add: dispatch_handled handleTopLevel_version)
next
  assume a: "c = js ''help''"
  then show "fst (handleTopLevel (c # rest))" by (simp add: handleTopLevel_help)
  from a show "dispatch run st (c # rest) = help_output rest"
    by (simp add: dispatch_handled handleTopLevel_help)
next
  assume "commandRegistry st c \<noteq> None \<and> (js ''--help'' \<in> set rest \<or> js ''-h'' \<in> set rest) \<and>
    \<not> top_level_token c"
  then show "dispatch run st (c # rest) =
        (if printCommandHelp c then [PrintCommandHelp c] else [PrintRootHelp])"
    using dispatch_command_help by blast
qed


theorem top_level_flags_short_circuit_and_help_flag_skips_handler_witness:
  "dispatch (run_handler quiet_world initial_identity) (startup None) [js ''--help''] = [PrintRootHelp] \<and>
   dispatch (run_handler quiet_world initial_identity) (startup None) [js ''--version''] = [PrintReportedVersion] \<and>
   dispatch (run_handler quiet_world initial_identity) (startup None) [js ''help'', js ''commit''] =
     [PrintCommandHelp (js ''commit'')] \<and>
   commandRegistry (startup None) (js ''commit'') \<noteq> None \<and>
   dispatch (run_handler quiet_world initial_identity) (startup None) [js ''commit'', js ''x'', js ''-h'', js ''y''] =
     [PrintCommandHelp (js ''commit'')]"
proof -
  let ?run = "run_handler quiet_world initial_identity"
  have 1: "dispatch ?run (startup None) [js ''--help''] = [PrintRootHelp]"
    using top_level_flags_short_circuit_and_help_flag_skips_handler [of "js ''--help''" "[]" ?run "startup None"]
    by simp
  have 2: "dispatch ?run (startup None) [js ''--version''] = [PrintReportedVersion]"
    using top_level_flags_short_circuit_and_help_flag_skips_handler [of "js ''--version''" "[]" ?run "startup None"]
    by simp
  have p: "printCommandHelp (js ''commit'')" "js ''commit'' \<noteq> []"
    by (simp_all add: printCommandHelp_def js_def)
  have 3: "dispatch ?run (startup None) [js ''help'', js ''commit''] = [PrintCommandHelp (js ''commit'')]"
    using top_level_flags_short_circuit_and_help_flag_skips_handler [of "js ''help''" "[js ''commit'']" ?run "startup None"] p
    by (simp add: help_output_def)
  have "(js ''commit'', js ''Generate a commit message with GPT-5 nano, create the commit, and push it'',
      RunCommitPushWorkflow (js ''commit'')) \<in> set builtins"
    by (simp add: builtins_def)
  then have r: "commandRegistry (startup None) (js ''commit'') \<noteq> None"
    using builtin_never_overridden by fastforce
  have t: "\<not> top_level_token (js ''commit'')" "js ''-h'' \<in> set [js ''x'', js ''-h'', js ''y'']"
    by (simp_all add: top_level_token_def js_def)
  have 4: "dispatch ?run (startup None) [js ''commit'', js ''x'', js ''-h'', js ''y''] =
     [PrintCommandHelp (js ''commit'')]"
    using top_level_flags_short_circuit_and_help_flag_skips_handler
      [of "js ''commit''" "[js ''x'', js ''-h'', js ''y'']" ?run "startup None"] r t p
    by simp
  show ?thesis using 1 2 3 r 4 by blast
qed

text \<open>
  C2 as stated fails for a configured task: \<open>build --help\<close>, with \<open>build\<close> registered from the
  configuration, prints the root help, not a help text for \<open>build\<close>.
\<close>

theorem task_help_flag_prints_root_help_counterexample:
  "commandRegistry (startup (Some three_step_config)) (js ''build'') =
     Some (WithTelemetry (js ''build'') (RunConfiguredTask (js ''build'') three_step_task)) \<and>
   js ''--help'' \<in> set [js ''--help''] \<and>
   dispatch (run_handler quiet_world initial_identity) (startup (Some three_step_config))
     [js ''build'', js ''--help''] = [PrintRootHelp] \<and>
   PrintCommandHelp (js ''build'') \<notin> set [PrintRootHelp]"
proof -
  have b: "js ''build'' \<notin> fst ` set builtins"
    "map_of (config_tasks (Some three_step_config)) (js ''build'') = Some three_step_task"
    by (simp_all add: builtins_def config_tasks_def three_step_config_def js_def)
  then have r: "commandRegistry (startup (Some three_step_config)) (js ''build'') =
     Some (WithTelemetry (js ''build'') (RunConfiguredTask (js ''build'') three_step_task))"
    by (rule configured_task_registered)
  have t: "\<not> top_level_token (js ''build'')" "\<not> printCommandHelp (js ''build'')"
    by (simp_all add: top_level_token_def printCommandHelp_def js_def)
  have "dispatch (run_handler quiet_world initial_identity) (startup (Some three_step_config))
     (js ''build'' # [js ''--help'']) = [PrintRootHelp]"
    using dispatch_command_help [OF r _ t(1), of "[js ''--help'']"] t(2) by simp
  then show ?thesis using r by simp
qed

lemma catalog_registerAll: "\<exists>more. commandCatalog (registerAll bs st) = commandCatalog st @ more"
proof (induction bs arbitrary: st)
  case Nil
  then show ?case by simp
next
  case (Cons b bs)
  obtain k d h where b: "b = (k, d, h)" by (cases b)
  from Cons.IH [of "registerCommand k d h st"] show ?case
    by (auto simp: b registerCommand_def)
qed

lemma catalog_registerTaskEntries:
  "\<exists>more. commandCatalog (registerTaskEntries ts st) = commandCatalog st @ more"
proof (induction ts arbitrary: st)
  case Nil
  then show ?case by simp
next
  case (Cons e ts)
  obtain k c where e: "e = (k, c)" by (cases e)
  from Cons.IH [of "registerConfigTask e st"] show ?case
    by (auto simp: e registerConfigTask_def registerCommand_def)
qed

lemma catalog_startup_head:
  "\<exists>more. commandCatalog (startup config) =
     \<lparr> entry_name = js ''help'', entry_description = js ''Help about any command'' \<rparr> # more"
proof -
  obtain m1 where "commandCatalog (registerBuiltins initial_cli) = commandCatalog initial_cli @ m1"
    unfolding registerBuiltins_def using catalog_registerAll by blast
  moreover obtain m2 where "commandCatalog (startup config) = commandCatalog (registerBuiltins initial_cli) @ m2"
    unfolding startup_def registerConfigTasks_eq using catalog_registerTaskEntries by blast
  ultimately show ?thesis by (simp add: initial_cli_def)
qed

lemma count_distinct_one:
  "distinct (map f xs) \<Longrightarrow> a \<in> set (map f xs) \<Longrightarrow> length (filter (\<lambda>x. f x = a) xs) = 1"
proof (induction xs)
  case Nil
  then show ?case by simp
next
  case (Cons x xs)
  show ?case
  proof (cases "f x = a")
    case True
    then have "a \<notin> set (map f xs)" using Cons.prems(1) by auto
    then have "filter (\<lambda>x. f x = a) xs = []" by (auto simp: filter_empty_conv)
    then show ?thesis using True by simp
  next
    case False
    then show ?thesis using Cons by auto
  qed
qed

lemma help_not_builtin: "js ''help'' \<notin> fst ` set builtins"
  by (simp add: builtins_def js_def)

text \<open>
  C10. The built-ins leave \<open>help\<close> out of the registry; it is only the first entry of the
  catalog. So a configured task named \<open>help\<close> passes the duplicate check: it is registered,
  and the catalog then has two entries named \<open>help\<close>. Yet \<open>dispatch\<close> on any argument vector
  that starts with \<open>help\<close> is answered by \<open>handleTopLevel\<close> with the help output, whatever the
  handlers would do: the task's handler is never run.
\<close>

theorem configured_help_task_is_registered_but_never_invoked:
  "commandRegistry (registerBuiltins initial_cli) (js ''help'') = None \<and>
   map entry_name (commandCatalog initial_cli) = [js ''help''] \<and>
   (map_of (config_tasks config) (js ''help'') = Some cfg \<longrightarrow>
      commandRegistry (startup config) (js ''help'') =
        Some (WithTelemetry (js ''help'') (RunConfiguredTask (js ''help'') cfg)) \<and>
      length (filter (\<lambda>e. entry_name e = js ''help'') (commandCatalog (startup config))) = 2) \<and>
   fst (handleTopLevel (js ''help'' # rest)) \<and>
   dispatch run (startup config) (js ''help'' # rest) = help_output rest \<and>
   (loadOneFConfig w = Inr config \<longrightarrow>
      main w (js ''help'' # rest) = Track (js ''info'') (js ''cli_invocation'') [] # help_output rest)"
proof (intro conjI impI)
  show "commandRegistry (registerBuiltins initial_cli) (js ''help'') = None"
    using help_not_builtin by (force simp: registry_registerBuiltins map_of_eq_None_iff)
  show "map entry_name (commandCatalog initial_cli) = [js ''help'']"
    by (simp add: initial_cli_def)
  show h: "fst (handleTopLevel (js ''help'' # rest))" by (simp add: handleTopLevel_help)
  show d: "dispatch run (startup config) (js ''help'' # rest) = help_output rest" for run
    by (simp add: dispatch_handled handleTopLevel_help)
  {
    assume "loadOneFConfig w = Inr config"
    then show "main w (js ''help'' # rest) = Track (js ''info'') (js ''cli_invocation'') [] # help_output rest"
      by (simp add: main_def configureCommandIdentity_eq main_args_def d Let_def)
  }
  assume a: "map_of (config_tasks config) (js ''help'') = Some cfg"
  with help_not_builtin show r: "commandRegistry (startup config) (js ''help'') =
        Some (WithTelemetry (js ''help'') (RunConfiguredTask (js ''help'') cfg))"
    by (rule configured_task_registered)
  obtain more where m: "commandCatalog (startup config) =
     \<lparr> entry_name = js ''help'', entry_description = js ''Help about any command'' \<rparr> # more"
    using catalog_startup_head by blast
  have once: "registered_once (startup config)" by (rule registered_once_startup)
  then have "distinct (map entry_name more)" "set (map entry_name more) = dom (commandRegistry (startup config))"
    by (simp_all add: registered_once_def m)
  moreover have "js ''help'' \<in> dom (commandRegistry (startup config))" using r by blast
  ultimately have "length (filter (\<lambda>e. entry_name e = js ''help'') more) = 1"
    using count_distinct_one [of entry_name more "js ''help''"] by simp
  then show "length (filter (\<lambda>e. entry_name e = js ''help'') (commandCatalog (startup config))) = 2"
    by (simp add: m)
qed

theorem configured_help_task_is_registered_but_never_invoked_witness:
  "map_of (config_tasks (Some help_task_config)) (js ''help'') = Some three_step_task \<and>
   commandRegistry (startup (Some help_task_config)) (js ''help'') =
     Some (WithTelemetry (js ''help'') (RunConfiguredTask (js ''help'') three_step_task)) \<and>
   length (filter (\<lambda>e. entry_name e = js ''help'') (commandCatalog (startup (Some help_task_config)))) = 2 \<and>
   dispatch (run_handler quiet_world initial_identity) (startup (Some help_task_config)) [js ''help''] =
     [PrintRootHelp] \<and>
   loadOneFConfig (quiet_world\<lparr> loadOneFConfig := Inr (Some help_task_config) \<rparr>) = Inr (Some help_task_config) \<and>
   main (quiet_world\<lparr> loadOneFConfig := Inr (Some help_task_config) \<rparr>) [js ''help'', js ''help''] =
     [Track (js ''info'') (js ''cli_invocation'') [], PrintCommandHelp (js ''help'')]"
proof -
  let ?w = "quiet_world\<lparr> loadOneFConfig := Inr (Some help_task_config) \<rparr>"
  have a: "map_of (config_tasks (Some help_task_config)) (js ''help'') = Some three_step_task"
    by (simp add: config_tasks_def help_task_config_def)
  have l: "loadOneFConfig ?w = Inr (Some help_task_config)" by simp
  have p: "printCommandHelp (js ''help'')" "js ''help'' \<noteq> []"
    by (simp_all add: printCommandHelp_def js_def)
  note t1 = configured_help_task_is_registered_but_never_invoked
    [of "Some help_task_config" three_step_task "[]" "run_handler quiet_world initial_identity" ?w]
  note t2 = configured_help_task_is_registered_but_never_invoked
    [of "Some help_task_config" three_step_task "[js ''help'']" "run_handler quiet_world initial_identity" ?w]
  have 1: "commandRegistry (startup (Some help_task_config)) (js ''help'') =
     Some (WithTelemetry (js ''help'') (RunConfiguredTask (js ''help'') three_step_task))"
    using t1 a by blast
  have 2: "length (filter (\<lambda>e. entry_name e = js ''help'') (commandCatalog (startup (Some help_task_config)))) = 2"
    using t1 a by blast
  have 3: "dispatch (run_handler quiet_world initial_identity) (startup (Some help_task_config)) [js ''help''] =
     [PrintRootHelp]"
    using t1 by (simp add: help_output_def)
  have 4: "main ?w [js ''help'', js ''help''] =
     [Track (js ''info'') (js ''cli_invocation'') [], PrintCommandHelp (js ''help'')]"
    using t2 l p by (simp add: help_output_def)
  show ?thesis using a 1 2 3 l 4 by blast
qed

subsection \<open>Interactive palette\<close>

lemma split_lines_single:
  "LF \<notin> set l \<Longrightarrow> CR \<notin> set l \<Longrightarrow> split_lines (l @ [LF]) = [l, []]"
proof (induction l rule: split_lines.induct)
  case 1
  then show ?case by simp
next
  case (2 c)
  then show ?case by auto
next
  case (3 c d ds)
  then show ?case by auto
qed

lemma trim_eq_Nil: "trim l = [] \<longleftrightarrow> (\<forall>c \<in> set l. isWhiteSpace c)"
proof
  assume "trim l = []"
  then have all: "\<forall>c \<in> set (dropWhile isWhiteSpace l). isWhiteSpace c"
    by (simp add: trim_def trimEnd_def trimStart_def dropWhile_eq_Nil_conv)
  have "dropWhile isWhiteSpace l = []"
  proof (rule ccontr)
    assume ne: "dropWhile isWhiteSpace l \<noteq> []"
    then have "\<not> isWhiteSpace (hd (dropWhile isWhiteSpace l))" by (rule hd_dropWhile)
    moreover have "hd (dropWhile isWhiteSpace l) \<in> set (dropWhile isWhiteSpace l)" using ne by simp
    ultimately show False using all by blast
  qed
  then show "\<forall>c \<in> set l. isWhiteSpace c" by (simp add: dropWhile_eq_Nil_conv)
next
  assume "\<forall>c \<in> set l. isWhiteSpace c"
  then have d: "dropWhile isWhiteSpace l = []" by (simp add: dropWhile_eq_Nil_conv)
  show "trim l = []" unfolding trim_def trimEnd_def trimStart_def d by simp
qed

lemma selectCommandArgs_exit0:
  assumes "selector (palette_input (commandCatalog st)) = SelectorClose (Some 0) out"
  shows "selectCommandArgs True True True selector st =
           (case find (\<lambda>line. trim line \<noteq> []) (split_lines out) of
              None \<Rightarrow> Fallback
            | Some firstLine \<Rightarrow>
                if trim (takeWhile (\<lambda>c. c \<noteq> TAB) firstLine) = [] then Fallback
                else Command [trim (takeWhile (\<lambda>c. c \<noteq> TAB) firstLine)])"
proof (cases "find (\<lambda>line. trim line \<noteq> []) (split_lines out)")
  case None
  then show ?thesis using assms by (simp add: selectCommandArgs_def)
next
  case (Some firstLine)
  then have "trim firstLine \<noteq> []" by (auto simp: find_Some_iff)
  then have "firstLine \<noteq> []" by (auto simp: trim_def trimEnd_def trimStart_def)
  then show ?thesis using assms Some by (simp add: selectCommandArgs_def Let_def)
qed

lemma trim_simple: "trim (js ''tasks'') = js ''tasks''" "trim (js ''x'') = js ''x''"
  by (simp_all add: js_def trim_def trimEnd_def trimStart_def isWhiteSpace_def)

lemma takeWhile_tasks_line:
  "takeWhile (\<lambda>c. c \<noteq> TAB) (js ''tasks'' @ [TAB] @ js ''List tasks defined in 1f.toml'') = js ''tasks''"
  by (simp add: js_def TAB_def)

text \<open>
  C8 (as amended). With a terminal on both sides and \<open>fzf\<close> installed: when the selector
  closes with code 0, the first non-blank line of its output is taken, and the token before
  its first tab, trimmed, is the chosen command, alone in the argument vector, provided it is
  not empty; when that token is blank, or the output has no non-blank line (in particular
  when it is empty), the result is the fallback. A non-zero exit code gives a cancellation
  with that code, and a spawn error gives the fallback. \<open>main\<close> dispatches a chosen command,
  exits with the code of a cancellation unless it is zero, and prints the root help on the
  fallback.
\<close>

theorem palette_outcomes:
  "(inTTY \<and> outTTY \<and> haveFzf \<longrightarrow>
      (\<forall>out. selector (palette_input (commandCatalog st)) = SelectorClose (Some 0) out \<longrightarrow>
         selectCommandArgs inTTY outTTY haveFzf selector st =
           (case find (\<lambda>line. trim line \<noteq> []) (split_lines out) of
              None \<Rightarrow> Fallback
            | Some firstLine \<Rightarrow>
                if trim (takeWhile (\<lambda>c. c \<noteq> TAB) firstLine) = [] then Fallback
                else Command [trim (takeWhile (\<lambda>c. c \<noteq> TAB) firstLine)])) \<and>
      (\<forall>l. selector (palette_input (commandCatalog st)) = SelectorClose (Some 0) (l @ [LF]) \<and>
           LF \<notin> set l \<and> CR \<notin> set l \<and> trim (takeWhile (\<lambda>c. c \<noteq> TAB) l) \<noteq> [] \<longrightarrow>
         selectCommandArgs inTTY outTTY haveFzf selector st =
           Command [trim (takeWhile (\<lambda>c. c \<noteq> TAB) l)]) \<and>
      (selector (palette_input (commandCatalog st)) = SelectorClose (Some 0) [] \<longrightarrow>
         selectCommandArgs inTTY outTTY haveFzf selector st = Fallback) \<and>
      (\<forall>code out. selector (palette_input (commandCatalog st)) = SelectorClose (Some code) out \<and> code \<noteq> 0 \<longrightarrow>
         selectCommandArgs inTTY outTTY haveFzf selector st = Cancel code) \<and>
      (selector (palette_input (commandCatalog st)) = SelectorError \<longrightarrow>
         selectCommandArgs inTTY outTTY haveFzf selector st = Fallback)) \<and>
   (\<forall>selected. main_args run st (Command [selected]) [] = dispatch run st [selected]) \<and>
   (\<forall>code. main_args run st (Cancel code) [] = (if code \<noteq> 0 then [Exit code] else [])) \<and>
   main_args run st Fallback [] = [PrintRootHelp]"
proof (intro conjI impI allI)
  fix out
  assume t: "inTTY \<and> outTTY \<and> haveFzf"
    and f: "selector (palette_input (commandCatalog st)) = SelectorClose (Some 0) out"
  show "selectCommandArgs inTTY outTTY haveFzf selector st =
           (case find (\<lambda>line. trim line \<noteq> []) (split_lines out) of
              None \<Rightarrow> Fallback
            | Some firstLine \<Rightarrow>
                if trim (takeWhile (\<lambda>c. c \<noteq> TAB) firstLine) = [] then Fallback
                else Command [trim (takeWhile (\<lambda>c. c \<noteq> TAB) firstLine)])"
    using t f selectCommandArgs_exit0 [of selector st out] by simp
next
  fix l
  assume t: "inTTY \<and> outTTY \<and> haveFzf"
    and f: "selector (palette_input (commandCatalog st)) = SelectorClose (Some 0) (l @ [LF]) \<and>
           LF \<notin> set l \<and> CR \<notin> set l \<and> trim (takeWhile (\<lambda>c. c \<noteq> TAB) l) \<noteq> []"
  then have s: "split_lines (l @ [LF]) = [l, []]" by (simp add: split_lines_single)
  have "l \<noteq> []" using f by (auto simp: trim_def trimEnd_def trimStart_def)
  have "trim l \<noteq> []"
  proof
    assume "trim l = []"
    then have "\<forall>c \<in> set (takeWhile (\<lambda>c. c \<noteq> TAB) l). isWhiteSpace c"
      unfolding trim_eq_Nil by (meson set_takeWhileD)
    then have "trim (takeWhile (\<lambda>c. c \<noteq> TAB) l) = []" by (simp add: trim_eq_Nil)
    then show False using f by simp
  qed
  then show "selectCommandArgs inTTY outTTY haveFzf selector st =
           Command [trim (takeWhile (\<lambda>c. c \<noteq> TAB) l)]"
    using t f \<open>l \<noteq> []\<close> by (simp add: selectCommandArgs_def s Let_def)
next
  assume "inTTY \<and> outTTY \<and> haveFzf"
    and "selector (palette_input (commandCatalog st)) = SelectorClose (Some 0) []"
  then show "selectCommandArgs inTTY outTTY haveFzf selector st = Fallback"
    by (simp add: selectCommandArgs_def trim_def trimEnd_def trimStart_def)
next
  fix code out
  assume "inTTY \<and> outTTY \<and> haveFzf"
    and "selector (palette_input (commandCatalog st)) = SelectorClose (Some code) out \<and> code \<noteq> 0"
  then show "selectCommandArgs inTTY outTTY haveFzf selector st = Cancel code"
    by (simp add: selectCommandArgs_def)
next
  assume "inTTY \<and> outTTY \<and> haveFzf"
    and "selector (palette_input (commandCatalog st)) = SelectorError"
  then show "selectCommandArgs inTTY outTTY haveFzf selector st = Fallback"
    by (simp add: selectCommandArgs_def)
next
  fix selected show "main_args run st (Command [selected]) [] = dispatch run st [selected]"
    by (simp add: main_args_def)
next
  fix code show "main_args run st (Cancel code) [] = (if code \<noteq> 0 then [Exit code] else [])"
    by (simp add: main_args_def)
next
  show "main_args run st Fallback [] = [PrintRootHelp]"
    by (simp add: main_args_def)
qed

theorem palette_outcomes_witness:
  "selectCommandArgs True True True
     (selector_printing (Some 0) ((js ''tasks'' @ [TAB] @ js ''List tasks defined in 1f.toml'') @ [LF]))
     (startup None) = Command [js ''tasks''] \<and>
   selectCommandArgs True True True (selector_printing (Some 0) []) (startup None) = Fallback \<and>
   selectCommandArgs True True True (selector_printing (Some 130) []) (startup None) = Cancel 130 \<and>
   selectCommandArgs True True True (\<lambda>input. SelectorError) (startup None) = Fallback \<and>
   main_args (run_handler quiet_world initial_identity) (startup None) (Cancel 130) [] = [Exit 130] \<and>
   main_args (run_handler quiet_world initial_identity) (startup None) Fallback [] = [PrintRootHelp]"
proof -
  let ?l = "js ''tasks'' @ [TAB] @ js ''List tasks defined in 1f.toml''"
  let ?run = "run_handler quiet_world initial_identity"
  let ?in = "palette_input (commandCatalog (startup None))"
  have tt: "True \<and> True \<and> True" by simp
  have l: "selector_printing (Some 0) (?l @ [LF]) ?in = SelectorClose (Some 0) (?l @ [LF]) \<and>
      LF \<notin> set ?l \<and> CR \<notin> set ?l \<and> trim (takeWhile (\<lambda>c. c \<noteq> TAB) ?l) \<noteq> []"
    unfolding takeWhile_tasks_line trim_simple
    by (simp add: selector_printing_def js_def LF_def CR_def TAB_def)
  note t1 = palette_outcomes [of True True True "selector_printing (Some 0) (?l @ [LF])" "startup None" ?run]
  note t2 = palette_outcomes [of True True True "selector_printing (Some 0) []" "startup None" ?run]
  note t3 = palette_outcomes [of True True True "selector_printing (Some 130) []" "startup None" ?run]
  note t4 = palette_outcomes [of True True True "\<lambda>input. SelectorError" "startup None" ?run]
  have "selectCommandArgs True True True (selector_printing (Some 0) (?l @ [LF])) (startup None) =
      Command [trim (takeWhile (\<lambda>c. c \<noteq> TAB) ?l)]"
    by (rule t1 [THEN conjunct1, THEN mp, OF tt, THEN conjunct2, THEN conjunct1, THEN spec, THEN mp, OF l])
  then have 1: "selectCommandArgs True True True (selector_printing (Some 0) (?l @ [LF])) (startup None) =
      Command [js ''tasks'']"
    unfolding takeWhile_tasks_line trim_simple .
  have e: "selector_printing (Some 0) [] ?in = SelectorClose (Some 0) []"
    by (simp add: selector_printing_def)
  have 2: "selectCommandArgs True True True (selector_printing (Some 0) []) (startup None) = Fallback"
    by (rule t2 [THEN conjunct1, THEN mp, OF tt, THEN conjunct2, THEN conjunct2, THEN conjunct1, THEN mp, OF e])
  have c: "selector_printing (Some 130) [] ?in = SelectorClose (Some 130) [] \<and> (130::int) \<noteq> 0"
    by (simp add: selector_printing_def)
  have 3: "selectCommandArgs True True True (selector_printing (Some 130) []) (startup None) = Cancel 130"
    by (rule t3 [THEN conjunct1, THEN mp, OF tt, THEN conjunct2, THEN conjunct2, THEN conjunct2,
          THEN conjunct1, THEN spec, THEN spec, THEN mp, OF c])
  have 4: "selectCommandArgs True True True (\<lambda>input. SelectorError) (startup None) = Fallback"
    by (rule t4 [THEN conjunct1, THEN mp, OF tt, THEN conjunct2, THEN conjunct2, THEN conjunct2,
          THEN conjunct2, THEN mp]) simp
  have "main_args ?run (startup None) (Cancel 130) [] = (if (130::int) \<noteq> 0 then [Exit 130] else [])"
    by (rule t4 [THEN conjunct2, THEN conjunct2, THEN conjunct1, THEN spec])
  then have 5: "main_args ?run (startup None) (Cancel 130) [] = [Exit 130]" by simp
  have 6: "main_args ?run (startup None) Fallback [] = [PrintRootHelp]"
    by (rule t4 [THEN conjunct2, THEN conjunct2, THEN conjunct2])
  show ?thesis using 1 2 3 4 5 6 by blast
qed

text \<open>
  C8 as stated fails when the token before the first tab is blank: for the selected line
  \<open>TAB x\<close> that token is the empty string, and the result is the fallback, not a command.
\<close>

theorem palette_blank_token_counterexample:
  "[TAB] @ js ''x'' \<noteq> [] \<and>
   takeWhile (\<lambda>c. c \<noteq> TAB) ([TAB] @ js ''x'') = [] \<and>
   selectCommandArgs True True True (selector_printing (Some 0) (([TAB] @ js ''x'') @ [LF])) (startup None) =
     Fallback \<and>
   Fallback \<noteq> Command [Nil]"
proof -
  let ?l = "[TAB] @ js ''x''"
  have s: "split_lines (?l @ [LF]) = [?l, []]"
    by (rule split_lines_single) (simp_all add: js_def LF_def CR_def TAB_def)
  have t: "trim ?l \<noteq> []"
    unfolding trim_eq_Nil by (simp add: js_def isWhiteSpace_def)
  have f: "find (\<lambda>line. trim line \<noteq> []) [?l, []] = Some ?l"
    using t by simp
  have k: "takeWhile (\<lambda>c. c \<noteq> TAB) ?l = []" by simp
  have e: "trim [] = []" by (simp add: trim_eq_Nil)
  have "selectCommandArgs True True True (selector_printing (Some 0) (?l @ [LF])) (startup None) =
      (case find (\<lambda>line. trim line \<noteq> []) (split_lines (?l @ [LF])) of
              None \<Rightarrow> Fallback
            | Some firstLine \<Rightarrow>
                if trim (takeWhile (\<lambda>c. c \<noteq> TAB) firstLine) = [] then Fallback
                else Command [trim (takeWhile (\<lambda>c. c \<noteq> TAB) firstLine)])"
    using selectCommandArgs_exit0 [of "selector_printing (Some 0) (?l @ [LF])" "startup None" "?l @ [LF]"]
    by (simp only: selector_printing_def simp_thms)
  also have "\<dots> = Fallback"
    unfolding s f by (simp only: option.case k e if_True simp_thms)
  finally show ?thesis using k by simp
qed

subsection \<open>Commit message formatting\<close>






















subsection \<open>Command identity\<close>

lemma base_of_trim: "base_of (trim x) = base_of x"
  by (simp add: base_of_def trim_idem)

lemma applyAppMetadata_eq:
  assumes "trim (commandName idn) = commandName idn \<or> True"
  shows "applyAppMetadata (config_app config) locks idn =
     \<lparr> commandName =
         (case config_app_name config of
            Some a \<Rightarrow> if nameLocked locks then commandName idn else base_of a
          | None \<Rightarrow> commandName idn),
       commandSummary =
         (if summaryLocked locks then commandSummary idn
          else (case config_app_description config of
                  Some d \<Rightarrow> d
                | None \<Rightarrow>
                    (case config_app_name config of
                       Some a \<Rightarrow> summary_of a
                     | None \<Rightarrow> commandSummary idn))),
       reportedVersion =
         (case config_app_version config of Some v \<Rightarrow> v | None \<Rightarrow> reportedVersion idn) \<rparr>"
proof (cases "config_app config")
  case None
  then show ?thesis
    by (cases idn)
       (simp add: applyAppMetadata_def config_app_name_def config_app_description_def
          config_app_version_def)
next
  case (Some a)
  have nb: "\<And>f. non_blank f = None \<longleftrightarrow> (map_option trim f = None \<or> map_option trim f = Some [])"
    by (auto simp: non_blank_def split: option.splits)
  have nbs: "\<And>f v. non_blank f = Some v \<Longrightarrow> map_option trim f = Some v \<and> v \<noteq> [] \<and> trim v = v"
    by (auto simp: non_blank_def trim_idem split: option.splits if_splits)
  show ?thesis
  proof (cases "non_blank (app_name a)")
    case None
    note n = this
    show ?thesis
    proof (cases "non_blank (app_description a)")
      case None
      then show ?thesis using n Some nb [of "app_name a"] nb [of "app_description a"]
        by (cases idn; cases "app_version a")
           (auto simp: applyAppMetadata_def config_app_name_def config_app_description_def
              config_app_version_def non_blank_def Let_def)
    next
      case (Some d)
      then show ?thesis using n \<open>config_app config = Some a\<close> nb [of "app_name a"] nbs [OF Some]
        by (cases idn; cases "app_version a")
           (auto simp: applyAppMetadata_def config_app_name_def config_app_description_def
              config_app_version_def non_blank_def Let_def)
    qed
  next
    case (Some n)
    note n = this
    have tn: "trim n \<noteq> []" using nbs [OF n] by simp
    show ?thesis
    proof (cases "non_blank (app_description a)")
      case None
      then show ?thesis using n \<open>config_app config = Some a\<close> nbs [OF n] nb [of "app_description a"] tn
        by (cases idn; cases "app_version a")
           (auto simp: applyAppMetadata_def config_app_name_def config_app_description_def
              config_app_version_def non_blank_def Let_def applyCommandIdentity_eq)
    next
      case (Some d)
      then show ?thesis using n \<open>config_app config = Some a\<close> nbs [OF n] nbs [OF Some] tn
        by (cases idn; cases "app_version a")
           (auto simp: applyAppMetadata_def config_app_name_def config_app_description_def
              config_app_version_def non_blank_def Let_def applyCommandIdentity_eq)
    qed
  qed
qed

text \<open>
  C7 (as amended). Whatever the environment, the \<open>[app]\<close> table and the invocation path are,
  the identity is resolved without error. The name is the one derived from the environment
  override when there is one, else from the \<open>[app]\<close> name, else from the invocation path
  (else the default): a name set by the environment is never replaced. The summary is the
  environment's when it sets one and is then never replaced; else it is the \<open>[app]\<close>
  description; else, with no description, it is generated from the \<open>[app]\<close> name when the
  configuration gives one, whether or not that name became the command name, and from the
  resolved name otherwise. The version is the \<open>[app]\<close> version, else the built-in one.
\<close>

theorem identity_follows_precedence:
  "resolve_identity env invoked config =
     Inr \<lparr> commandName = resolved_name env invoked config,
           commandSummary = resolved_summary env invoked config,
           reportedVersion = resolved_version config \<rparr>"
proof -
  have none: "config_app_name None = None" "config_app_description None = None"
    by (simp_all add: config_app_name_def config_app_description_def config_app_def)
  have app: "(case config of None \<Rightarrow> None | Some c \<Rightarrow> app c) = config_app config"
    by (simp add: config_app_def)
  show ?thesis
    unfolding resolve_identity_def configureCommandIdentity_eq app
    by (simp add: applyAppMetadata_eq resolved_name_def resolved_summary_def resolved_version_def none
        split: option.splits)
qed

lemma foo_base:
  "trim (js ''foo'') = js ''foo''" "basename (js ''foo'') = js ''foo''" "extname (js ''foo'') = []"
  "trim (js ''bar'') = js ''bar''" "js ''foo'' \<noteq> []" "js ''bar'' \<noteq> []"
  "replace_first [] [] (js ''foo'') = js ''foo''"
  by (code_simp, code_simp, code_simp, code_simp, code_simp, code_simp, code_simp)

lemma forced_name_lookup:
  "lookupNonEmptyEnv forced_name_env (js ''FLOW_COMMAND_SUMMARY'') = Inr None"
  "lookupNonEmptyEnv forced_name_env (js ''FLOW_COMMAND_NAME'') = Inr (Some (js ''foo''))"
  by (simp_all add: lookupNonEmptyEnv_fixed identity_keys_not_inherited env_override_def
      forced_name_env_def foo_base, simp add: js_def)

text \<open>
  C7 as stated fails when the environment forces the name and the \<open>[app]\<close> table gives
  another name and no description: with \<open>FLOW_COMMAND_NAME=foo\<close> and \<open>[app] name = "bar"\<close> the
  name is \<open>foo\<close>, and the summary is generated from \<open>bar\<close>, not from the name that won.
\<close>

theorem summary_from_app_name_counterexample:
  "resolve_identity forced_name_env (Some (js ''/usr/local/bin/fast'')) (Some bar_app_config) =
     Inr \<lparr> commandName = js ''foo'',
           commandSummary = js ''bar is CLI to move faster in software projects'',
           reportedVersion = js ''1.0.0'' \<rparr> \<and>
   js ''bar is CLI to move faster in software projects'' \<noteq> summary_of (js ''foo'')"
proof -
  have c: "configureCommandIdentity forced_name_env (Some (js ''/usr/local/bin/fast'')) initial_identity =
      Inr (\<lparr> nameLocked = True, summaryLocked = False \<rparr>,
           \<lparr> commandName = js ''foo'', commandSummary = summary_of (js ''foo''),
             reportedVersion = js ''1.0.0'' \<rparr>)"
    by (simp add: configureCommandIdentity_def forced_name_lookup applyCommandIdentity_def foo_base
        initial_identity_def Let_def)
  have s: "summary_of (js ''bar'') = js ''bar is CLI to move faster in software projects''"
    by (simp add: summary_of_def js_def)
  have r: "resolve_identity forced_name_env (Some (js ''/usr/local/bin/fast'')) (Some bar_app_config) =
     Inr \<lparr> commandName = js ''foo'',
           commandSummary = js ''bar is CLI to move faster in software projects'',
           reportedVersion = js ''1.0.0'' \<rparr>"
    by (simp add: resolve_identity_def c applyAppMetadata_def bar_app_config_def foo_base s Let_def)
  have d: "js ''bar is CLI to move faster in software projects'' \<noteq> summary_of (js ''foo'')"
    by (simp add: summary_of_def js_def)
  from r d show ?thesis by (intro conjI)
qed

end
